theory Spec2Isabelle
  imports Complex_Main "HOL-Library.Sublist"
begin

section \<open>JavaScript values\<close>

text \<open>
  The score engine reads fields of plain objects, and a field that was never set is
  \<open>undefined\<close>. The values the modelled code computes with are therefore
  \<open>undefined\<close>, \<open>null\<close>, \<open>NaN\<close> and the finite numbers. Numbers are exact reals:
  the rounding of IEEE doubles and the infinities are not modelled.
\<close>

datatype jsval = Undefined | Null | NaN | Num real

text \<open>ToNumber; \<open>None\<close> stands for NaN.\<close>

fun ToNumber :: "jsval \<Rightarrow> real option" where
  "ToNumber Undefined = None"
| "ToNumber Null = Some 0"
| "ToNumber NaN = None"
| "ToNumber (Num r) = Some r"

fun arith :: "(real \<Rightarrow> real \<Rightarrow> real) \<Rightarrow> jsval \<Rightarrow> jsval \<Rightarrow> jsval" where
  "arith f a b =
     (case ToNumber a of
        None \<Rightarrow> NaN
      | Some x \<Rightarrow> (case ToNumber b of None \<Rightarrow> NaN | Some y \<Rightarrow> Num (f x y)))"

fun compare :: "(real \<Rightarrow> real \<Rightarrow> bool) \<Rightarrow> jsval \<Rightarrow> jsval \<Rightarrow> bool" where
  "compare p a b =
     (case ToNumber a of
        None \<Rightarrow> False
      | Some x \<Rightarrow> (case ToNumber b of None \<Rightarrow> False | Some y \<Rightarrow> p x y))"

definition js_add :: "jsval \<Rightarrow> jsval \<Rightarrow> jsval" where
  "js_add = arith (+)"

definition js_sub :: "jsval \<Rightarrow> jsval \<Rightarrow> jsval" where
  "js_sub = arith (-)"

definition js_mul :: "jsval \<Rightarrow> jsval \<Rightarrow> jsval" where
  "js_mul = arith (*)"

text \<open>
  Division is only used by the modelled code with a positive array length as divisor;
  a zero divisor (an infinity or NaN in JavaScript) is given as NaN.
\<close>

definition js_div :: "jsval \<Rightarrow> jsval \<Rightarrow> jsval" where
  "js_div a b = (if ToNumber b = Some 0 then NaN else arith (/) a b)"

definition js_le :: "jsval \<Rightarrow> jsval \<Rightarrow> bool" where
  "js_le = compare (\<le>)"

definition js_lt :: "jsval \<Rightarrow> jsval \<Rightarrow> bool" where
  "js_lt = compare (<)"

definition js_ge :: "jsval \<Rightarrow> jsval \<Rightarrow> bool" where
  "js_ge = compare (\<ge>)"

definition js_gt :: "jsval \<Rightarrow> jsval \<Rightarrow> bool" where
  "js_gt = compare (>)"

definition Math_min :: "jsval \<Rightarrow> jsval \<Rightarrow> jsval" where
  "Math_min = arith min"

definition Math_max :: "jsval \<Rightarrow> jsval \<Rightarrow> jsval" where
  "Math_max = arith max"

text \<open>\<open>Math.round\<close> rounds half up: \<open>floor (x + 0.5)\<close>.\<close>

definition Math_round :: "jsval \<Rightarrow> jsval" where
  "Math_round a =
     (case ToNumber a of None \<Rightarrow> NaN | Some x \<Rightarrow> Num (of_int \<lfloor>x + 1 / 2\<rfloor>))"

fun truthy :: "jsval \<Rightarrow> bool" where
  "truthy (Num r) = (r \<noteq> 0)"
| "truthy _ = False"

text \<open>\<open>a || b\<close>\<close>

definition js_or :: "jsval \<Rightarrow> jsval \<Rightarrow> jsval" where
  "js_or a b = (if truthy a then a else b)"

text \<open>A value lies in the closed range from 0 to 100: it is a number, and in range.\<close>

definition in_0_100 :: "jsval \<Rightarrow> bool" where
  "in_0_100 v = (case v of Num r \<Rightarrow> 0 \<le> r \<and> r \<le> 100 | _ \<Rightarrow> False)"


section \<open>Score service (src/services/score.js)\<close>

record weights =
  w_cloudCover :: jsval
  w_seeing :: jsval
  w_transparency :: jsval
  w_moonPhase :: jsval
  w_humidity :: jsval

definition general_weights :: weights where
  "general_weights = \<lparr> w_cloudCover = Num 0.40, w_seeing = Num 0.20,
     w_transparency = Num 0.20, w_moonPhase = Num 0.15, w_humidity = Num 0.05 \<rparr>"

definition deep_sky_weights :: weights where
  "deep_sky_weights = \<lparr> w_cloudCover = Num 0.40, w_seeing = Num 0.10,
     w_transparency = Num 0.30, w_moonPhase = Num 0.15, w_humidity = Num 0.05 \<rparr>"

definition planetary_weights :: weights where
  "planetary_weights = \<lparr> w_cloudCover = Num 0.35, w_seeing = Num 0.40,
     w_transparency = Num 0.10, w_moonPhase = Num 0.10, w_humidity = Num 0.05 \<rparr>"

definition milky_way_weights :: weights where
  "milky_way_weights = \<lparr> w_cloudCover = Num 0.45, w_seeing = Num 0.05,
     w_transparency = Num 0.25, w_moonPhase = Num 0.20, w_humidity = Num 0.05 \<rparr>"

text \<open>
  \<open>MODE_WEIGHTS\<close> is an object literal, so \<open>MODE_WEIGHTS[mode]\<close> finds the four own
  properties and, through the prototype chain, the members of \<open>Object.prototype\<close>.
  Those are functions (or, for \<open>__proto__\<close>, the prototype object): truthy values
  that have none of the five weight properties.
\<close>

definition Object_prototype_names :: "string list" where
  "Object_prototype_names =
     [''constructor'', ''__proto__'', ''hasOwnProperty'', ''isPrototypeOf'',
      ''propertyIsEnumerable'', ''toLocaleString'', ''toString'', ''valueOf'',
      ''__defineGetter__'', ''__defineSetter__'', ''__lookupGetter__'',
      ''__lookupSetter__'']"

definition no_weight_properties :: weights where
  "no_weight_properties = \<lparr> w_cloudCover = Undefined, w_seeing = Undefined,
     w_transparency = Undefined, w_moonPhase = Undefined, w_humidity = Undefined \<rparr>"

text \<open>\<open>MODE_WEIGHTS[mode]\<close>; \<open>None\<close> is \<open>undefined\<close>.\<close>

definition MODE_WEIGHTS :: "string \<Rightarrow> weights option" where
  "MODE_WEIGHTS mode =
     (if mode = ''general'' then Some general_weights
      else if mode = ''deep-sky'' then Some deep_sky_weights
      else if mode = ''planetary'' then Some planetary_weights
      else if mode = ''milky-way'' then Some milky_way_weights
      else if mode \<in> set Object_prototype_names then Some no_weight_properties
      else None)"

text \<open>
  The conditions object. Display-only fields (wind direction label, moon phase name,
  sunrise, sunset) are left out; \<open>isMoonUp\<close> is only tested for truth.
\<close>

record conditions =
  cloudCover :: jsval
  cloudCoverMin :: jsval
  cloudCoverMax :: jsval
  cloudCoverConfidence :: "string option"
  seeing :: jsval
  seeingLabel :: "string option"
  transparency :: jsval
  transparencyLabel :: "string option"
  temperature :: jsval
  humidity :: jsval
  windSpeed :: jsval
  moonIllumination :: jsval
  isMoonUp :: bool

definition calculateCloudScore :: "jsval \<Rightarrow> jsval" where
  "calculateCloudScore c =
     (if c = Undefined \<or> c = Null then Num 50
      else Math_max (Num 0) (Math_min (Num 100) (js_sub (Num 100) c)))"

definition calculateSeeingScore :: "jsval \<Rightarrow> jsval" where
  "calculateSeeingScore s =
     (if \<not> truthy s then Num 60 else Math_min (Num 100) (js_mul s (Num 20)))"

definition calculateTransparencyScore :: "jsval \<Rightarrow> jsval" where
  "calculateTransparencyScore t =
     (if \<not> truthy t then Num 60 else Math_min (Num 100) (js_mul t (Num 20)))"

definition calculateMoonScore :: "jsval \<Rightarrow> bool \<Rightarrow> jsval" where
  "calculateMoonScore illumination up =
     (if illumination = Undefined then Num 80
      else if \<not> up then js_sub (Num 100) (js_mul illumination (Num 0.3))
      else Math_max (Num 0) (js_sub (Num 100) illumination))"

definition calculateHumidityScore :: "jsval \<Rightarrow> jsval" where
  "calculateHumidityScore h =
     (if h = Undefined then Num 70
      else if js_le h (Num 50) then Num 100
      else if js_le h (Num 60) then Num 90
      else if js_le h (Num 70) then Num 75
      else if js_le h (Num 80) then Num 50
      else if js_le h (Num 90) then Num 25
      else Num 10)"

definition calculateUncertainty :: "conditions \<Rightarrow> jsval" where
  "calculateUncertainty c =
     (let cloudSpread = js_or (js_sub (cloudCoverMax c) (cloudCoverMin c)) (Num 0)
      in if js_gt cloudSpread (Num 40) then Num 20
         else if js_gt cloudSpread (Num 25) then Num 15
         else if js_gt cloudSpread (Num 15) then Num 10
         else if js_gt cloudSpread (Num 5) then Num 5
         else Num 0)"

definition getScoreRating :: "jsval \<Rightarrow> string" where
  "getScoreRating s =
     (if js_ge s (Num 90) then ''perfect''
      else if js_ge s (Num 70) then ''very-good''
      else if js_ge s (Num 50) then ''good''
      else if js_ge s (Num 30) then ''moderate''
      else ''poor'')"

text \<open>
  A warning; its message and icon (German display text) are left out.
\<close>

record warning =
  wtype :: string
  severity :: string

definition generateWarnings :: "conditions \<Rightarrow> warning list" where
  "generateWarnings c =
     (if js_ge (humidity c) (Num 85) \<and> js_le (temperature c) (Num 5)
        then [\<lparr> wtype = ''fog-risk'', severity = ''high'' \<rparr>]
      else if js_ge (humidity c) (Num 75)
        then [\<lparr> wtype = ''fog-risk'', severity = ''medium'' \<rparr>]
      else [])
     @ (if js_ge (windSpeed c) (Num 30)
        then [\<lparr> wtype = ''high-wind'', severity = ''high'' \<rparr>]
      else if js_ge (windSpeed c) (Num 20)
        then [\<lparr> wtype = ''high-wind'', severity = ''medium'' \<rparr>]
      else [])
     @ (if js_ge (cloudCover c) (Num 70)
        then [\<lparr> wtype = ''clouds'', severity = ''high'' \<rparr>]
      else if js_ge (cloudCover c) (Num 40)
        then [\<lparr> wtype = ''clouds'', severity = ''medium'' \<rparr>]
      else [])
     @ (if isMoonUp c \<and> js_ge (moonIllumination c) (Num 70)
        then [\<lparr> wtype = ''moon-bright'', severity = ''medium'' \<rparr>]
      else [])
     @ (if cloudCoverConfidence c = Some ''low''
        then [\<lparr> wtype = ''low-confidence'', severity = ''low'' \<rparr>]
      else [])"

text \<open>The four notes of \<open>_getBestTimeNote\<close>, by their meaning.\<close>

datatype time_note = Ideal | Good_with_limits | Possible_but_hard | Not_optimal

definition getBestTimeNote :: "jsval \<Rightarrow> time_note" where
  "getBestTimeNote s =
     (if js_ge s (Num 80) then Ideal
      else if js_ge s (Num 60) then Good_with_limits
      else if js_ge s (Num 40) then Possible_but_hard
      else Not_optimal)"

record factor =
  f_score :: jsval
  f_weight :: jsval

record score =
  overallScore :: jsval
  scoreRating :: string
  scoreUncertainty :: jsval
  b_cloud :: factor
  b_seeing :: factor
  b_transparency :: factor
  b_moon :: factor
  b_humidity :: factor
  warnings :: "warning list"
  bestObservingTimeNote :: time_note

text \<open>
  \<open>calculateScore(conditions, mode = 'general')\<close>: an omitted (undefined) mode is
  \<open>None\<close> and takes the default.
\<close>

definition calculateScore :: "conditions \<Rightarrow> string option \<Rightarrow> score" where
  "calculateScore c mode_arg =
     (let mode = (case mode_arg of None \<Rightarrow> ''general'' | Some m \<Rightarrow> m);
          w = (case MODE_WEIGHTS mode of Some x \<Rightarrow> x | None \<Rightarrow> general_weights);
          cloudScore = calculateCloudScore (cloudCover c);
          seeingScore = calculateSeeingScore (seeing c);
          transparencyScore = calculateTransparencyScore (transparency c);
          moonScore = calculateMoonScore (moonIllumination c) (isMoonUp c);
          humidityScore = calculateHumidityScore (humidity c);
          overall = Math_round
            (js_add (js_add (js_add (js_add
               (js_mul cloudScore (w_cloudCover w))
               (js_mul seeingScore (w_seeing w)))
               (js_mul transparencyScore (w_transparency w)))
               (js_mul moonScore (w_moonPhase w)))
               (js_mul humidityScore (w_humidity w)))
      in \<lparr> overallScore = overall,
           scoreRating = getScoreRating overall,
           scoreUncertainty = calculateUncertainty c,
           b_cloud = \<lparr> f_score = cloudScore, f_weight = w_cloudCover w \<rparr>,
           b_seeing = \<lparr> f_score = seeingScore, f_weight = w_seeing w \<rparr>,
           b_transparency = \<lparr> f_score = transparencyScore, f_weight = w_transparency w \<rparr>,
           b_moon = \<lparr> f_score = moonScore, f_weight = w_moonPhase w \<rparr>,
           b_humidity = \<lparr> f_score = humidityScore, f_weight = w_humidity w \<rparr>,
           warnings = generateWarnings c,
           bestObservingTimeNote = getBestTimeNote overall \<rparr>)"


text \<open>
  The conditions of the overcast end-to-end scenario: cloudCover 80, humidity 90,
  windSpeed 35, seeing 2, transparency 2, the moon risen with illumination 90. Every
  property the scenario does not list is absent from the object.
\<close>

definition overcast_scenario :: conditions where
  "overcast_scenario =
     \<lparr> cloudCover = Num 80, cloudCoverMin = Undefined, cloudCoverMax = Undefined,
       cloudCoverConfidence = None, seeing = Num 2, seeingLabel = None,
       transparency = Num 2, transparencyLabel = None, temperature = Undefined,
       humidity = Num 90, windSpeed = Num 35, moonIllumination = Num 90,
       isMoonUp = True \<rparr>"

text \<open>Input ranges under which the sub-scores stay in range.\<close>

definition not_negative :: "jsval \<Rightarrow> bool" where
  "not_negative v = (case v of Num r \<Rightarrow> 0 \<le> r | _ \<Rightarrow> True)"

definition percent_or_missing :: "jsval \<Rightarrow> bool" where
  "percent_or_missing v =
     (case v of Num r \<Rightarrow> 0 \<le> r \<and> r \<le> 100 | NaN \<Rightarrow> False | _ \<Rightarrow> True)"


section \<open>Astro service (src/services/astro.js): scale conversion\<close>

definition convertSeeing :: "jsval \<Rightarrow> jsval" where
  "convertSeeing v =
     (if \<not> truthy v then Num 3
      else if js_le v (Num 2) then Num 5
      else if js_le v (Num 4) then Num 4
      else if v = Num 5 then Num 3
      else if v = Num 6 then Num 2
      else Num 1)"

definition convertTransparency :: "jsval \<Rightarrow> jsval" where
  "convertTransparency v =
     (if \<not> truthy v then Num 3
      else if js_ge v (Num 7) then Num 5
      else if js_ge v (Num 5) then Num 4
      else if v = Num 4 then Num 3
      else if js_ge v (Num 2) then Num 2
      else Num 1)"

text \<open>The label table shared by \<open>_getSeeingLabel\<close> and \<open>_getTransparencyLabel\<close>.\<close>

definition rating_label :: "jsval \<Rightarrow> string" where
  "rating_label converted =
     (if converted = Num 5 then ''Ausgezeichnet''
      else if converted = Num 4 then ''Gut''
      else if converted = Num 3 then ''Durchschnittlich''
      else if converted = Num 2 then ''Unterdurchschnittlich''
      else if converted = Num 1 then ''Schlecht''
      else ''Unbekannt'')"

definition getSeeingLabel :: "jsval \<Rightarrow> string" where
  "getSeeingLabel v = rating_label (convertSeeing v)"

definition getTransparencyLabel :: "jsval \<Rightarrow> string" where
  "getTransparencyLabel v = rating_label (convertTransparency v)"



section \<open>Astro service: processing and fetching the seeing feed\<close>

text \<open>
  Instants are milliseconds since the epoch. The source keeps them as ISO strings; both
  services produce them with \<open>toISOString\<close>, which only yields valid dates.

  A processed record of the seeing feed, with the fields the fusion reads (its cloud,
  humidity and wind fields are not read downstream and are left out).
\<close>

record astro_entry =
  a_timestamp :: int
  a_seeing :: jsval
  a_seeingLabel :: string
  a_transparency :: jsval
  a_transparencyLabel :: string

record astro_data =
  a_hourly :: "astro_entry list"
  a_isDefault :: bool

record raw_astro_entry =
  timepoint :: int
  raw_seeing :: jsval
  raw_transparency :: jsval

text \<open>
  The decoded body of the seeing feed: \<open>baseTime\<close> is the instant
  \<open>_parseInitTime(data.init)\<close> returns; \<open>dataseries\<close> may be missing.
\<close>

record raw_astro =
  baseTime :: int
  dataseries :: "raw_astro_entry list option"

definition getDefaultAstroData :: astro_data where
  "getDefaultAstroData = \<lparr> a_hourly = [], a_isDefault = True \<rparr>"

text \<open>\<open>_processAstroData(data)\<close>; \<open>None\<close> is a null body.\<close>

definition processAstroData :: "raw_astro option \<Rightarrow> astro_data" where
  "processAstroData body =
     (case body of
        None \<Rightarrow> getDefaultAstroData
      | Some d \<Rightarrow>
          (case dataseries d of
             None \<Rightarrow> getDefaultAstroData
           | Some series \<Rightarrow>
               \<lparr> a_hourly = map (\<lambda>entry.
                     \<lparr> a_timestamp = baseTime d + timepoint entry * 60 * 60 * 1000,
                       a_seeing = convertSeeing (raw_seeing entry),
                       a_seeingLabel = getSeeingLabel (raw_seeing entry),
                       a_transparency = convertTransparency (raw_transparency entry),
                       a_transparencyLabel = getTransparencyLabel (raw_transparency entry) \<rparr>)
                   series,
                 a_isDefault = False \<rparr>))"

text \<open>
  What \<open>await fetch(url)\<close> and \<open>await response.json()\<close> come to: the fetch
  rejects (network error), the response is not ok (with its status), the body is not
  JSON, or the body is decoded.
\<close>

datatype 'a fetch_outcome = Fetch_rejected | Http_error nat | Body_rejected | Http_ok 'a

datatype error = Network_error | Api_error string nat | Parse_error | Type_error

text \<open>
  The fetchers read the cache before fetching and write it after a successful fetch.
  Here a fetcher takes what \<open>cacheService.get(cacheKey)\<close> returned (\<open>None\<close> for
  null) and returns, beside its result, the value it hands to \<open>cacheService.set\<close>, if
  any. The cache itself is modelled in its own section.

  \<open>fetchAstroData\<close>: every failure inside \<open>try\<close> is caught and answered with the
  default data.
\<close>

definition fetchAstroData ::
  "astro_data option \<Rightarrow> raw_astro option fetch_outcome \<Rightarrow> astro_data \<times> astro_data option" where
  "fetchAstroData cached outcome =
     (case cached of
        Some c \<Rightarrow> (c, None)
      | None \<Rightarrow>
          (case outcome of
             Http_ok body \<Rightarrow> (let processed = processAstroData body in (processed, Some processed))
           | _ \<Rightarrow> (getDefaultAstroData, None)))"


section \<open>Weather service (src/services/weather.js): fetching\<close>

text \<open>
  A processed hourly weather record, with the fields the application reads.
\<close>

record hour =
  h_timestamp :: int
  h_cloudCover :: jsval
  h_cloudCoverMin :: jsval
  h_cloudCoverMax :: jsval
  h_cloudCoverConfidence :: "string option"
  h_temperature :: jsval
  h_humidity :: jsval
  h_windSpeed :: jsval

record weather_data =
  wd_hourly :: "hour list"

record moon =
  illumination :: jsval

record astronomical_data =
  moonPhases :: "moon list"

text \<open>
  \<open>fetchWeatherData\<close>: the \<open>catch\<close> block logs and rethrows. The decoded body is
  given as the result of \<open>_processWeatherData\<close> on it, \<open>None\<close> when that throws (a
  body without an hourly series).
\<close>

definition fetchWeatherData ::
  "weather_data option \<Rightarrow> weather_data option fetch_outcome
     \<Rightarrow> error + weather_data \<times> weather_data option" where
  "fetchWeatherData cached outcome =
     (case cached of
        Some c \<Rightarrow> Inr (c, None)
      | None \<Rightarrow>
          (case outcome of
             Fetch_rejected \<Rightarrow> Inl Network_error
           | Http_error status \<Rightarrow> Inl (Api_error ''Weather API error'' status)
           | Body_rejected \<Rightarrow> Inl Parse_error
           | Http_ok None \<Rightarrow> Inl Type_error
           | Http_ok (Some processed) \<Rightarrow> Inr (processed, Some processed)))"

definition fetchAstronomicalData ::
  "astronomical_data option \<Rightarrow> astronomical_data option fetch_outcome
     \<Rightarrow> error + astronomical_data \<times> astronomical_data option" where
  "fetchAstronomicalData cached outcome =
     (case cached of
        Some c \<Rightarrow> Inr (c, None)
      | None \<Rightarrow>
          (case outcome of
             Fetch_rejected \<Rightarrow> Inl Network_error
           | Http_error status \<Rightarrow> Inl (Api_error ''Astronomical API error'' status)
           | Body_rejected \<Rightarrow> Inl Parse_error
           | Http_ok None \<Rightarrow> Inl Type_error
           | Http_ok (Some result) \<Rightarrow> Inr (result, Some result)))"


section \<open>Application (src/app.js): alignment, fusion and forecast\<close>

text \<open>
  Local time is the instant shifted by a fixed offset \<open>tz\<close> (milliseconds east of
  UTC). \<open>getHours\<close> is the local hour of the day; \<open>dateKey\<close> is the local calendar
  day, kept as the number of the day since the epoch, which the source renders as the
  string year-month-day.
\<close>

definition getHours :: "int \<Rightarrow> int \<Rightarrow> int" where
  "getHours tz t = ((t + tz) div 3600000) mod 24"

definition dateKey :: "int \<Rightarrow> int \<Rightarrow> int" where
  "dateKey tz t = (t + tz) div 86400000"

fun findCurrentHourIndex_from :: "nat \<Rightarrow> hour list \<Rightarrow> int \<Rightarrow> nat" where
  "findCurrentHourIndex_from i [] now = 0"
| "findCurrentHourIndex_from i (h # hs) now =
     (if h_timestamp h \<ge> now then nat (max 0 (int i - 1))
      else findCurrentHourIndex_from (Suc i) hs now)"

definition findCurrentHourIndex :: "hour list \<Rightarrow> int \<Rightarrow> nat" where
  "findCurrentHourIndex hourlyData now = findCurrentHourIndex_from 0 hourlyData now"

text \<open>
  The scan of \<open>findMatchingAstroData\<close>: the state is \<open>closest\<close> and \<open>minDiff\<close>,
  where \<open>None\<close> is the initial \<open>Infinity\<close>.
\<close>

fun closest_scan ::
  "int \<Rightarrow> astro_entry list \<Rightarrow> astro_entry \<times> int option \<Rightarrow> astro_entry \<times> int option" where
  "closest_scan targetTime [] acc = acc"
| "closest_scan targetTime (entry # rest) (closest, minDiff) =
     (let diff = \<bar>a_timestamp entry - targetTime\<bar>
      in if (case minDiff of None \<Rightarrow> True | Some m \<Rightarrow> diff < m)
         then closest_scan targetTime rest (entry, Some diff)
         else closest_scan targetTime rest (closest, minDiff))"

definition findMatchingAstroData :: "astro_data \<Rightarrow> int \<Rightarrow> astro_entry option" where
  "findMatchingAstroData astroData targetTime =
     (case a_hourly astroData of
        [] \<Rightarrow> None
      | first # _ \<Rightarrow> Some (fst (closest_scan targetTime (a_hourly astroData) (first, None))))"

definition isMoonUp_at :: "int \<Rightarrow> int \<Rightarrow> bool" where
  "isMoonUp_at tz time = (let hour = getHours tz time in hour \<ge> 20 \<or> hour \<le> 5)"

text \<open>\<open>astronomicalData?.moonPhases?.[index] || {}\<close>, then \<open>.illumination\<close>.\<close>

definition moon_illumination :: "astronomical_data \<Rightarrow> nat \<Rightarrow> jsval" where
  "moon_illumination astronomicalData index =
     (if index < length (moonPhases astronomicalData)
      then illumination (moonPhases astronomicalData ! index) else Undefined)"

text \<open>\<open>label || 'Durchschnittlich'\<close> on an optional record.\<close>

definition label_or_default :: "string option \<Rightarrow> string" where
  "label_or_default l =
     (case l of None \<Rightarrow> ''Durchschnittlich''
      | Some x \<Rightarrow> if x = [] then ''Durchschnittlich'' else x)"

text \<open>\<open>rating || 3\<close> on an optional record.\<close>

definition rating_or_default :: "jsval option \<Rightarrow> jsval" where
  "rating_or_default r = (case r of None \<Rightarrow> Num 3 | Some x \<Rightarrow> js_or x (Num 3))"

record hourly_score =
  hs_timestamp :: int
  hs_score :: jsval
  scoreMin :: jsval
  scoreMax :: jsval

record day_forecast =
  date :: int
  d_overallScore :: jsval
  d_scoreRating :: string
  d_scoreUncertainty :: jsval
  hourlyScores :: "hourly_score list"
  bestHour :: "int option"

definition findBestHour :: "hourly_score list \<Rightarrow> int option" where
  "findBestHour scores =
     (case scores of
        [] \<Rightarrow> None
      | first # _ \<Rightarrow>
          Some (hs_timestamp
            (foldl (\<lambda>best h. if js_gt (hs_score h) (hs_score best) then h else best)
               first scores)))"

text \<open>
  \<open>dailyGroups\<close> is an object filled in a loop; its keys are listed in insertion
  order. It is an association list: a record joins the group of its date, and a new
  date is added at the end.
\<close>

fun group_push :: "int \<Rightarrow> hour \<Rightarrow> (int \<times> hour list) list \<Rightarrow> (int \<times> hour list) list" where
  "group_push k h [] = [(k, [h])]"
| "group_push k h ((k', hs) # groups) =
     (if k = k' then (k', hs @ [h]) # groups else (k', hs) # group_push k h groups)"

definition dailyGroups :: "int \<Rightarrow> hour list \<Rightarrow> (int \<times> hour list) list" where
  "dailyGroups tz hourly =
     foldl (\<lambda>groups h. group_push (dateKey tz (h_timestamp h)) h groups) [] hourly"

definition isNightHour :: "int \<Rightarrow> hour \<Rightarrow> bool" where
  "isNightHour tz h = (let hour = getHours tz (h_timestamp h) in hour \<ge> 18 \<or> hour \<le> 6)"

text \<open>The conditions built for one night hour of the forecast.\<close>

definition forecastConditions :: "astro_data \<Rightarrow> jsval \<Rightarrow> hour \<Rightarrow> conditions" where
  "forecastConditions astroData moonIllum h =
     (let matchingAstro = findMatchingAstroData astroData (h_timestamp h)
      in \<lparr> cloudCover = h_cloudCover h,
           cloudCoverMin = h_cloudCoverMin h,
           cloudCoverMax = h_cloudCoverMax h,
           cloudCoverConfidence = None,
           seeing = rating_or_default (map_option a_seeing matchingAstro),
           seeingLabel = None,
           transparency = rating_or_default (map_option a_transparency matchingAstro),
           transparencyLabel = None,
           temperature = Undefined,
           humidity = h_humidity h,
           windSpeed = Undefined,
           moonIllumination = js_or moonIllum (Num 50),
           isMoonUp = True \<rparr>)"

text \<open>The body of \<open>dates.forEach\<close>: the forecast of one day.\<close>

definition buildDayForecast ::
  "int \<Rightarrow> string \<Rightarrow> astro_data \<Rightarrow> astronomical_data \<Rightarrow> nat \<Rightarrow> int \<Rightarrow> hour list \<Rightarrow> day_forecast" where
  "buildDayForecast tz mode astroData astronomicalData index key hours =
     (let moonIllum = moon_illumination astronomicalData index;
          nightHours = filter (isNightHour tz) hours;
          results = map (\<lambda>h. (h, calculateScore (forecastConditions astroData moonIllum h)
                                   (Some mode))) nightHours;
          hourly = map (\<lambda>(h, result).
                     \<lparr> hs_timestamp = h_timestamp h,
                       hs_score = overallScore result,
                       scoreMin = Math_max (Num 0)
                         (js_sub (overallScore result) (scoreUncertainty result)),
                       scoreMax = Math_min (Num 100)
                         (js_add (overallScore result) (scoreUncertainty result)) \<rparr>) results;
          scores = map (\<lambda>(h, result). overallScore result) results;
          dayScore = (if length nightHours > 0
                      then Math_round (js_div (foldl js_add (Num 0) scores)
                                         (Num (of_nat (length scores))))
                      else Num 50);
          dayScoreRating = (if length nightHours > 0 then getScoreRating dayScore
                            else ''good'')
      in \<lparr> date = key,
           d_overallScore = dayScore,
           d_scoreRating = dayScoreRating,
           d_scoreUncertainty = Num 10,
           hourlyScores = hourly,
           bestHour = findBestHour hourly \<rparr>)"

definition buildForecastData ::
  "int \<Rightarrow> string \<Rightarrow> weather_data \<Rightarrow> astro_data \<Rightarrow> astronomical_data \<Rightarrow> day_forecast list" where
  "buildForecastData tz mode weatherData astroData astronomicalData =
     map (\<lambda>(index, key, hours).
            buildDayForecast tz mode astroData astronomicalData index key hours)
       (enumerate 0 (take 4 (dailyGroups tz (wd_hourly weatherData))))"

record app_state =
  st_conditions :: "conditions option"
  st_score :: "score option"
  st_forecast :: "day_forecast list"
  st_error :: "error option"
  photographyMode :: string

text \<open>
  \<open>processWeatherData\<close>, up to the update of the page. With an empty hourly series
  \<open>currentHour\<close> is undefined and reading its timestamp throws a TypeError.
\<close>

definition processWeatherData ::
  "int \<Rightarrow> int \<Rightarrow> app_state \<Rightarrow> weather_data \<Rightarrow> astro_data \<Rightarrow> astronomical_data
     \<Rightarrow> error + app_state" where
  "processWeatherData tz now st weatherData astroData astronomicalData =
     (case wd_hourly weatherData of
        [] \<Rightarrow> Inl Type_error
      | first # _ \<Rightarrow>
          (let currentHourIndex = findCurrentHourIndex (wd_hourly weatherData) now;
               currentHour = (if currentHourIndex < length (wd_hourly weatherData)
                              then wd_hourly weatherData ! currentHourIndex else first);
               currentAstro = findMatchingAstroData astroData now;
               conds = \<lparr> cloudCover = h_cloudCover currentHour,
                         cloudCoverMin = h_cloudCoverMin currentHour,
                         cloudCoverMax = h_cloudCoverMax currentHour,
                         cloudCoverConfidence = h_cloudCoverConfidence currentHour,
                         seeing = rating_or_default (map_option a_seeing currentAstro),
                         seeingLabel =
                           Some (label_or_default (map_option a_seeingLabel currentAstro)),
                         transparency =
                           rating_or_default (map_option a_transparency currentAstro),
                         transparencyLabel =
                           Some (label_or_default
                                   (map_option a_transparencyLabel currentAstro)),
                         temperature = h_temperature currentHour,
                         humidity = h_humidity currentHour,
                         windSpeed = h_windSpeed currentHour,
                         moonIllumination = moon_illumination astronomicalData 0,
                         isMoonUp = isMoonUp_at tz now \<rparr>
           in Inr (st\<lparr> st_conditions := Some conds,
                       st_score := Some (calculateScore conds (Some (photographyMode st))),
                       st_forecast := buildForecastData tz (photographyMode st)
                                        weatherData astroData astronomicalData \<rparr>)))"

text \<open>
  \<open>loadWeatherData\<close> for a known location: the weather and the seeing feed are
  awaited together, then the sun and moon data, then the data are processed. Whatever
  is thrown on the way is caught and recorded in \<open>state.error\<close>. Each feed is given
  by its cache lookup and the outcome of its fetch.
\<close>

definition loadWeatherData ::
  "int \<Rightarrow> int \<Rightarrow> app_state
     \<Rightarrow> weather_data option \<times> weather_data option fetch_outcome
     \<Rightarrow> astro_data option \<times> raw_astro option fetch_outcome
     \<Rightarrow> astronomical_data option \<times> astronomical_data option fetch_outcome
     \<Rightarrow> app_state" where
  "loadWeatherData tz now st weatherFeed astroFeed astronomicalFeed =
     (let astroData = fst (fetchAstroData (fst astroFeed) (snd astroFeed))
      in case fetchWeatherData (fst weatherFeed) (snd weatherFeed) of
           Inl e \<Rightarrow> st\<lparr> st_error := Some e \<rparr>
         | Inr (weatherData, _) \<Rightarrow>
             (case fetchAstronomicalData (fst astronomicalFeed) (snd astronomicalFeed) of
                Inl e \<Rightarrow> st\<lparr> st_error := Some e \<rparr>
              | Inr (astronomicalData, _) \<Rightarrow>
                  (case processWeatherData tz now st weatherData astroData astronomicalData of
                     Inl e \<Rightarrow> st\<lparr> st_error := Some e \<rparr>
                   | Inr st' \<Rightarrow> st')))"


text \<open>A fetch that failed by a network error or by a response that is not ok.\<close>

definition fetch_failed :: "'a fetch_outcome \<Rightarrow> bool" where
  "fetch_failed outcome =
     (case outcome of Fetch_rejected \<Rightarrow> True | Http_error status \<Rightarrow> True | _ \<Rightarrow> False)"


section \<open>Cache service (src/services/cache.js)\<close>

text \<open>
  A cache entry as \<open>set\<close> builds it. The fast tier is a \<open>Map\<close>. The durable tier,
  \<open>localStorage\<close>, holds strings under keys, listed in the order \<open>Object.keys\<close>
  gives them: a string is either the JSON text of an entry (the payload is taken to
  survive serialisation unchanged) or text that \<open>JSON.parse\<close> rejects. Other users
  of \<open>localStorage\<close> keep their own keys in it. Time is \<open>Date.now()\<close>, in
  milliseconds, read once per operation.
\<close>

record 'v cached =
  data :: 'v
  expiry :: int
  timestamp :: int

datatype 'v stored = Json "'v cached" | Unparsable

record 'v cache =
  memoryCache :: "string \<rightharpoonup> 'v cached"
  localStorage :: "(string \<times> 'v stored) list"

definition CACHE_PREFIX :: string where
  "CACHE_PREFIX = ''astroweather_cache_''"

definition generateKey :: "string \<Rightarrow> string" where
  "generateKey key = CACHE_PREFIX @ key"

definition getItem :: "(string \<times> 's) list \<Rightarrow> string \<Rightarrow> 's option" where
  "getItem items k = map_of items k"

fun setItem :: "string \<Rightarrow> 's \<Rightarrow> (string \<times> 's) list \<Rightarrow> (string \<times> 's) list" where
  "setItem k v [] = [(k, v)]"
| "setItem k v ((k', v') # items) =
     (if k = k' then (k, v) # items else (k', v') # setItem k v items)"

definition removeItem :: "string \<Rightarrow> (string \<times> 's) list \<Rightarrow> (string \<times> 's) list" where
  "removeItem k items = filter (\<lambda>(k', v). k' \<noteq> k) items"

text \<open>The second half of \<open>get\<close>: the read of the durable tier.\<close>

definition read_storage :: "'v cache \<Rightarrow> int \<Rightarrow> string \<Rightarrow> 'v option \<times> 'v cache" where
  "read_storage c now cacheKey =
     (case getItem (localStorage c) cacheKey of
        None \<Rightarrow> (None, c)
      | Some Unparsable \<Rightarrow> (None, c)
      | Some (Json cached) \<Rightarrow>
          if now < expiry cached
          then (Some (data cached), c\<lparr> memoryCache := (memoryCache c)(cacheKey \<mapsto> cached) \<rparr>)
          else (None, c\<lparr> localStorage := removeItem cacheKey (localStorage c) \<rparr>))"

text \<open>\<open>get(key)\<close> at time \<open>now\<close>: the value (\<open>None\<close> for null) and the cache after.\<close>

definition cache_get :: "'v cache \<Rightarrow> int \<Rightarrow> string \<Rightarrow> 'v option \<times> 'v cache" where
  "cache_get c now key =
     (let cacheKey = generateKey key
      in case memoryCache c cacheKey of
           Some cached \<Rightarrow>
             if now < expiry cached then (Some (data cached), c)
             else read_storage (c\<lparr> memoryCache := (memoryCache c)(cacheKey := None) \<rparr>)
                    now cacheKey
         | None \<Rightarrow> read_storage c now cacheKey)"

text \<open>\<open>data.timestamp || 0\<close>, and 0 for an entry that does not parse.\<close>

definition entry_timestamp :: "'v stored option \<Rightarrow> int" where
  "entry_timestamp s = (case s of Some (Json cached) \<Rightarrow> timestamp cached | _ \<Rightarrow> 0)"

text \<open>
  \<open>_cleanupStorage\<close>: \<open>Array.prototype.sort\<close> is stable, as \<open>sort_key\<close> is;
  \<open>Math.ceil(n / 2)\<close> is \<open>(n + 1) div 2\<close>.
\<close>

definition cleanupStorage :: "(string \<times> 'v stored) list \<Rightarrow> (string \<times> 'v stored) list" where
  "cleanupStorage items =
     (let keys = filter (\<lambda>k. prefix CACHE_PREFIX k) (map fst items);
          entries = map (\<lambda>k. (k, entry_timestamp (getItem items k))) keys;
          sorted_entries = sort_key snd entries;
          toRemove = (length entries + 1) div 2
      in foldl (\<lambda>remaining e. removeItem (fst e) remaining) items
           (take toRemove sorted_entries))"

text \<open>
  \<open>set(key, data, ttl)\<close> at time \<open>now\<close>. Whether \<open>localStorage.setItem\<close> succeeds
  is up to the browser (it throws when the quota is exceeded, and then leaves the
  storage as it was): \<open>quota_ok\<close> says whether it does.
\<close>

definition cache_set :: "'v cache \<Rightarrow> int \<Rightarrow> bool \<Rightarrow> string \<Rightarrow> 'v \<Rightarrow> int \<Rightarrow> 'v cache" where
  "cache_set c now quota_ok key v ttl =
     (let cacheKey = generateKey key;
          cached = \<lparr> data = v, expiry = now + ttl, timestamp = now \<rparr>;
          c1 = c\<lparr> memoryCache := (memoryCache c)(cacheKey \<mapsto> cached) \<rparr>
      in if quota_ok
         then c1\<lparr> localStorage := setItem cacheKey (Json cached) (localStorage c1) \<rparr>
         else c1\<lparr> localStorage := cleanupStorage (localStorage c1) \<rparr>)"

text \<open>The durable entries that belong to the cache.\<close>

definition cache_entries :: "(string \<times> 'v stored) list \<Rightarrow> (string \<times> 'v stored) list" where
  "cache_entries items = filter (\<lambda>(k, v). prefix CACHE_PREFIX k) items"

text \<open>What \<open>getItem\<close> returned is an entry that parses and has not expired at \<open>t\<close>.\<close>

definition live_at :: "int \<Rightarrow> 'v stored option \<Rightarrow> bool" where
  "live_at t s = (case s of Some (Json cached) \<Rightarrow> t < expiry cached | _ \<Rightarrow> False)"


section \<open>Sample inputs\<close>

text \<open>A seeing series in which the second and the third record are equally near to 25.\<close>

definition sample_astro :: astro_data where
  "sample_astro =
     \<lparr> a_hourly =
         [\<lparr> a_timestamp = 10, a_seeing = Num 5, a_seeingLabel = ''Ausgezeichnet'',
            a_transparency = Num 4, a_transparencyLabel = ''Gut'' \<rparr>,
          \<lparr> a_timestamp = 30, a_seeing = Num 4, a_seeingLabel = ''Gut'',
            a_transparency = Num 4, a_transparencyLabel = ''Gut'' \<rparr>,
          \<lparr> a_timestamp = 20, a_seeing = Num 2, a_seeingLabel = ''Unterdurchschnittlich'',
            a_transparency = Num 1, a_transparencyLabel = ''Schlecht'' \<rparr>],
       a_isDefault = False \<rparr>"

definition sample_hour :: "int \<Rightarrow> hour" where
  "sample_hour t =
     \<lparr> h_timestamp = t, h_cloudCover = Num 10, h_cloudCoverMin = Num 5,
       h_cloudCoverMax = Num 20, h_cloudCoverConfidence = Some ''high'',
       h_temperature = Num 8, h_humidity = Num 40, h_windSpeed = Num 5 \<rparr>"

text \<open>Hours at 10:00 and 12:00 of day 0 and at 20:00 of day 1 (UTC).\<close>

definition sample_weather :: weather_data where
  "sample_weather =
     \<lparr> wd_hourly = [sample_hour 36000000, sample_hour 43200000, sample_hour 158400000] \<rparr>"

definition sample_astronomical :: astronomical_data where
  "sample_astronomical = \<lparr> moonPhases = [\<lparr> illumination = Num 25 \<rparr>] \<rparr>"

definition sample_state :: app_state where
  "sample_state = \<lparr> st_conditions = None, st_score = None, st_forecast = [],
     st_error = None, photographyMode = ''general'' \<rparr>"

text \<open>
  A cache whose durable tier holds two live entries, the newer one under the key
  \<open>k\<close>.
\<close>

definition stale_cache :: "nat cache" where
  "stale_cache =
     \<lparr> memoryCache = Map.empty,
       localStorage =
         [(generateKey ''a'', Json \<lparr> data = 1, expiry = 1000, timestamp = 0 \<rparr>),
          (generateKey ''k'', Json \<lparr> data = 7, expiry = 1000, timestamp = 5 \<rparr>)] \<rparr>"

text \<open>
  A durable tier with three cache entries (one of them unparsable) and the settings of
  the application.
\<close>

definition full_cache :: "nat cache" where
  "full_cache =
     \<lparr> memoryCache = Map.empty,
       localStorage =
         [(generateKey ''new'', Json \<lparr> data = 1, expiry = 900, timestamp = 30 \<rparr>),
          (''skyready_settings'', Unparsable),
          (generateKey ''old'', Json \<lparr> data = 2, expiry = 800, timestamp = 10 \<rparr>),
          (generateKey ''bad'', Unparsable)] \<rparr>"


section \<open>Properties of the score engine\<close>

lemmas js_defs = js_add_def js_sub_def js_mul_def js_le_def js_lt_def js_ge_def js_gt_def
  Math_min_def Math_max_def Math_round_def js_or_def

lemmas subscore_defs = calculateCloudScore_def calculateSeeingScore_def
  calculateTransparencyScore_def calculateMoonScore_def calculateHumidityScore_def

lemma calculateCloudScore_range: "c \<noteq> NaN \<Longrightarrow> in_0_100 (calculateCloudScore c)"
  by (cases c) (simp_all add: calculateCloudScore_def in_0_100_def js_defs)

lemma calculateHumidityScore_range: "in_0_100 (calculateHumidityScore h)"
  by (simp add: calculateHumidityScore_def in_0_100_def)

lemma calculateSeeingScore_range:
  "not_negative s \<Longrightarrow> in_0_100 (calculateSeeingScore s)"
  by (cases s) (simp_all add: calculateSeeingScore_def in_0_100_def js_defs not_negative_def)

lemma calculateTransparencyScore_range:
  "not_negative t \<Longrightarrow> in_0_100 (calculateTransparencyScore t)"
  by (cases t)
    (simp_all add: calculateTransparencyScore_def in_0_100_def js_defs not_negative_def)

lemma calculateMoonScore_range:
  "percent_or_missing i \<Longrightarrow> in_0_100 (calculateMoonScore i up)"
  by (cases i)
    (simp_all add: calculateMoonScore_def in_0_100_def js_defs percent_or_missing_def)

text \<open>
  C1, as stated, fails: only the cloud score is clamped at both ends. The seeing and
  transparency scores have no lower clamp (a rating of -1 scores -20), the moon score
  has no clamp at all while the moon is down (illumination 400 scores -20) and no upper
  clamp while it is up (illumination -10 scores 110), and a NaN cloud cover scores NaN.
\<close>

theorem subscores_out_of_range:
  "\<not> in_0_100 (calculateSeeingScore (Num (- 1)))
   \<and> \<not> in_0_100 (calculateTransparencyScore (Num (- 1)))
   \<and> \<not> in_0_100 (calculateMoonScore (Num 400) False)
   \<and> \<not> in_0_100 (calculateMoonScore (Num (- 10)) True)
   \<and> \<not> in_0_100 (calculateCloudScore NaN)"
  by (simp add: subscore_defs in_0_100_def js_defs)

text \<open>
  C1, amended: the cloud score lies in [0,100] for every input but NaN and the humidity
  score for every input; the seeing and transparency scores lie in [0,100] for every
  input that is not a negative number; the moon score lies in [0,100] whenever the
  illumination is absent or within [0,100], and is at least 0 for every numeric
  illumination while the moon is up. The two instances the claim names hold: the moon
  score at illumination 150 is at least 0, the cloud score at cloud cover -10 is at
  most 100.
\<close>

theorem subscores_in_range:
  "(c \<noteq> NaN \<longrightarrow> in_0_100 (calculateCloudScore c))
   \<and> in_0_100 (calculateHumidityScore h)
   \<and> (not_negative s \<longrightarrow> in_0_100 (calculateSeeingScore s))
   \<and> (not_negative t \<longrightarrow> in_0_100 (calculateTransparencyScore t))
   \<and> (percent_or_missing i \<longrightarrow> in_0_100 (calculateMoonScore i up))
   \<and> js_ge (calculateMoonScore (Num r) True) (Num 0)
   \<and> js_ge (calculateMoonScore (Num 150) up) (Num 0)
   \<and> js_le (calculateCloudScore (Num (- 10))) (Num 100)"
proof -
  have "js_ge (calculateMoonScore (Num r) True) (Num 0)"
    by (simp add: calculateMoonScore_def js_defs)
  moreover have "js_ge (calculateMoonScore (Num 150) up) (Num 0)"
    by (simp add: calculateMoonScore_def js_defs)
  moreover have "js_le (calculateCloudScore (Num (- 10))) (Num 100)"
    by (simp add: calculateCloudScore_def js_defs)
  ultimately show ?thesis
    using calculateCloudScore_range calculateHumidityScore_range
      calculateSeeingScore_range calculateTransparencyScore_range
      calculateMoonScore_range
    by blast
qed

theorem subscores_in_range_witness:
  "Num (- 10) \<noteq> NaN \<and> in_0_100 (calculateCloudScore (Num (- 10)))
   \<and> in_0_100 (calculateHumidityScore (Num 95))
   \<and> not_negative (Num 7) \<and> in_0_100 (calculateSeeingScore (Num 7))
   \<and> not_negative Undefined \<and> in_0_100 (calculateTransparencyScore Undefined)
   \<and> percent_or_missing (Num 100) \<and> in_0_100 (calculateMoonScore (Num 100) False)
   \<and> js_ge (calculateMoonScore (Num 150) False) (Num 0)"
  using subscores_in_range [of "Num (- 10)" "Num 95" "Num 7" Undefined "Num 100" False 150]
  by (simp add: not_negative_def percent_or_missing_def)

text \<open>
  C2, as stated, fails on the fog warning: the scenario gives no temperature, the test
  \<open>temperature <= 5\<close> on an absent temperature is false, and the fog warning raised
  is the medium one (humidity at least 75), not the high one.
\<close>

theorem overcast_scenario_fog_not_high:
  "\<lparr> wtype = ''fog-risk'', severity = ''high'' \<rparr>
     \<notin> set (warnings (calculateScore overcast_scenario (Some ''general'')))"
  by (simp add: calculateScore_def overcast_scenario_def generateWarnings_def Let_def js_defs)

text \<open>
  C2, amended: on the scenario's conditions with any temperature \<open>t\<close> (absent
  included), mode general, the warnings are exactly fog-risk, high-wind (high), clouds
  (high) and moon-bright (medium), in this order, where fog-risk is high if
  \<open>t <= 5\<close> holds and medium otherwise (so medium for the scenario as listed);
  the overall score is 27, below 30, and the rating is poor.
\<close>

theorem overcast_scenario_score:
  "calculateScore (overcast_scenario\<lparr> temperature := t \<rparr>) (Some ''general'') =
     \<lparr> overallScore = Num 27, scoreRating = ''poor'', scoreUncertainty = Num 0,
       b_cloud = \<lparr> f_score = Num 20, f_weight = Num 0.40 \<rparr>,
       b_seeing = \<lparr> f_score = Num 40, f_weight = Num 0.20 \<rparr>,
       b_transparency = \<lparr> f_score = Num 40, f_weight = Num 0.20 \<rparr>,
       b_moon = \<lparr> f_score = Num 10, f_weight = Num 0.15 \<rparr>,
       b_humidity = \<lparr> f_score = Num 25, f_weight = Num 0.05 \<rparr>,
       warnings =
         [\<lparr> wtype = ''fog-risk'',
            severity = (if js_le t (Num 5) then ''high'' else ''medium'') \<rparr>,
          \<lparr> wtype = ''high-wind'', severity = ''high'' \<rparr>,
          \<lparr> wtype = ''clouds'', severity = ''high'' \<rparr>,
          \<lparr> wtype = ''moon-bright'', severity = ''medium'' \<rparr>],
       bestObservingTimeNote = Not_optimal \<rparr>
   \<and> js_lt (overallScore
         (calculateScore (overcast_scenario\<lparr> temperature := t \<rparr>) (Some ''general'')))
       (Num 30)"
  by (simp add: calculateScore_def overcast_scenario_def MODE_WEIGHTS_def
      general_weights_def subscore_defs calculateUncertainty_def getScoreRating_def
      generateWarnings_def getBestTimeNote_def Let_def js_defs)

theorem overcast_scenario_score_witness:
  "warnings (calculateScore overcast_scenario (Some ''general'')) =
     [\<lparr> wtype = ''fog-risk'', severity = ''medium'' \<rparr>,
      \<lparr> wtype = ''high-wind'', severity = ''high'' \<rparr>,
      \<lparr> wtype = ''clouds'', severity = ''high'' \<rparr>,
      \<lparr> wtype = ''moon-bright'', severity = ''medium'' \<rparr>]
   \<and> warnings (calculateScore (overcast_scenario\<lparr> temperature := Num 3 \<rparr>)
        (Some ''general'')) =
     [\<lparr> wtype = ''fog-risk'', severity = ''high'' \<rparr>,
      \<lparr> wtype = ''high-wind'', severity = ''high'' \<rparr>,
      \<lparr> wtype = ''clouds'', severity = ''high'' \<rparr>,
      \<lparr> wtype = ''moon-bright'', severity = ''medium'' \<rparr>]
   \<and> overallScore (calculateScore overcast_scenario (Some ''general'')) = Num 27
   \<and> scoreRating (calculateScore overcast_scenario (Some ''general'')) = ''poor''"
  using overcast_scenario_score [of Undefined] overcast_scenario_score [of "Num 3"]
  by (simp add: overcast_scenario_def js_defs)

text \<open>
  C7: the seeing conversion maps 1 and 2 to 5, 3 and 4 to 4, 5 to 3, 6 to 2, 7 and 8
  to 1.
\<close>

theorem convertSeeing_table:
  "convertSeeing (Num 1) = Num 5 \<and> convertSeeing (Num 2) = Num 5
   \<and> convertSeeing (Num 3) = Num 4 \<and> convertSeeing (Num 4) = Num 4
   \<and> convertSeeing (Num 5) = Num 3 \<and> convertSeeing (Num 6) = Num 2
   \<and> convertSeeing (Num 7) = Num 1 \<and> convertSeeing (Num 8) = Num 1"
  by (simp add: convertSeeing_def js_defs)

text \<open>
  C10: a mode that names no weighting profile is meant to fall back to the general
  profile. The lookup \<open>MODE_WEIGHTS[mode]\<close> also finds the members inherited from
  \<open>Object.prototype\<close>; for the mode \<open>constructor\<close> it yields a function, which is
  truthy, so the fallback is skipped, every weight is undefined and the overall score
  is NaN, where the general profile gives 27.
\<close>

theorem calculateScore_inherited_mode_name:
  "overallScore (calculateScore overcast_scenario (Some ''constructor'')) = NaN
   \<and> scoreRating (calculateScore overcast_scenario (Some ''constructor'')) = ''poor''
   \<and> f_weight (b_cloud (calculateScore overcast_scenario (Some ''constructor''))) = Undefined
   \<and> overallScore (calculateScore overcast_scenario (Some ''general'')) = Num 27
   \<and> calculateScore overcast_scenario (Some ''constructor'')
       \<noteq> calculateScore overcast_scenario (Some ''general'')"
proof -
  have a: "overallScore (calculateScore overcast_scenario (Some ''constructor'')) = NaN"
    by (simp add: calculateScore_def overcast_scenario_def MODE_WEIGHTS_def
        Object_prototype_names_def no_weight_properties_def subscore_defs Let_def js_defs)
  have b: "overallScore (calculateScore overcast_scenario (Some ''general'')) = Num 27"
    by (simp add: calculateScore_def overcast_scenario_def MODE_WEIGHTS_def
        general_weights_def subscore_defs Let_def js_defs)
  have c: "scoreRating (calculateScore overcast_scenario (Some ''constructor'')) = ''poor''"
    by (simp add: calculateScore_def overcast_scenario_def MODE_WEIGHTS_def
        Object_prototype_names_def no_weight_properties_def subscore_defs
        getScoreRating_def Let_def js_defs)
  have d: "f_weight (b_cloud (calculateScore overcast_scenario (Some ''constructor'')))
             = Undefined"
    by (simp add: calculateScore_def overcast_scenario_def MODE_WEIGHTS_def
        Object_prototype_names_def no_weight_properties_def Let_def)
  from a b have "calculateScore overcast_scenario (Some ''constructor'')
       \<noteq> calculateScore overcast_scenario (Some ''general'')"
    by (metis jsval.distinct(11))
  with a b c d show ?thesis by simp
qed

text \<open>
  Apart from the inherited names the fallback works: an omitted mode, and a mode that
  is neither a profile nor a member of \<open>Object.prototype\<close>, score as general does.
\<close>

lemma calculateScore_mode_fallback:
  "calculateScore c None = calculateScore c (Some ''general'')"
  "m \<notin> {''general'', ''deep-sky'', ''planetary'', ''milky-way''} \<Longrightarrow>
     m \<notin> set Object_prototype_names \<Longrightarrow>
     calculateScore c (Some m) = calculateScore c (Some ''general'')"
  by (simp_all add: calculateScore_def MODE_WEIGHTS_def)


section \<open>Properties of the fetchers and of the fusion\<close>

lemma fetchAstroData_failed:
  "fetch_failed ao \<Longrightarrow> fetchAstroData None ao = (getDefaultAstroData, None)"
  by (cases ao) (simp_all add: fetch_failed_def fetchAstroData_def)

lemma fetchWeatherData_failed:
  "fetch_failed wo \<Longrightarrow> \<exists>e. fetchWeatherData None wo = Inl e"
  by (cases wo) (simp_all add: fetch_failed_def fetchWeatherData_def)

lemma findMatchingAstroData_default:
  "findMatchingAstroData getDefaultAstroData t = None"
  by (simp add: findMatchingAstroData_def getDefaultAstroData_def)

lemma processWeatherData_default_astro:
  assumes "wd_hourly w \<noteq> []"
  shows "\<exists>c st'. processWeatherData tz now st w getDefaultAstroData ad = Inr st'
       \<and> st_conditions st' = Some c
       \<and> seeing c = Num 3 \<and> transparency c = Num 3
       \<and> seeingLabel c = Some ''Durchschnittlich''
       \<and> transparencyLabel c = Some ''Durchschnittlich''
       \<and> st_score st' = Some (calculateScore c (Some (photographyMode st)))
       \<and> st_error st' = st_error st"
proof (cases "wd_hourly w")
  case Nil
  with assms show ?thesis by simp
next
  case (Cons first rest)
  then show ?thesis
    by (simp add: processWeatherData_def findMatchingAstroData_default Let_def
        rating_or_default_def label_or_default_def)
qed

text \<open>
  C3: when the fetch of the seeing feed fails (the fetch rejects or the response is not
  ok; nothing cached), \<open>fetchAstroData\<close> returns the default astro data. With that,
  once the weather feed and the sun and moon data have arrived and the weather series
  is not empty, \<open>loadWeatherData\<close> records no error and stores conditions with
  seeing 3, transparency 3 and both labels \<open>Durchschnittlich\<close> (the application's
  word for average), and the score computed from them. When the fetch of the weather
  feed fails, \<open>fetchWeatherData\<close> throws, and its caller \<open>loadWeatherData\<close> ends
  with that error and nothing else changed.
\<close>

theorem seeing_failure_recovered_weather_failure_propagates:
  "(fetch_failed ao \<longrightarrow> fetchAstroData None ao = (getDefaultAstroData, None))
   \<and> (fetch_failed ao \<and> fetchWeatherData wc wo = Inr (w, wx) \<and> wd_hourly w \<noteq> []
        \<and> fetchAstronomicalData dc dout = Inr (ad, dx) \<longrightarrow>
        (\<exists>c. st_conditions (loadWeatherData tz now st (wc, wo) (None, ao) (dc, dout)) = Some c
           \<and> seeing c = Num 3 \<and> transparency c = Num 3
           \<and> seeingLabel c = Some ''Durchschnittlich''
           \<and> transparencyLabel c = Some ''Durchschnittlich''
           \<and> st_score (loadWeatherData tz now st (wc, wo) (None, ao) (dc, dout))
               = Some (calculateScore c (Some (photographyMode st)))
           \<and> st_error (loadWeatherData tz now st (wc, wo) (None, ao) (dc, dout))
               = st_error st))
   \<and> (fetch_failed wo' \<longrightarrow>
        (\<exists>e. fetchWeatherData None wo' = Inl e
           \<and> loadWeatherData tz now st (None, wo') af df = st\<lparr> st_error := Some e \<rparr>))"
proof (intro conjI impI)
  assume "fetch_failed ao"
  then show "fetchAstroData None ao = (getDefaultAstroData, None)"
    by (rule fetchAstroData_failed)
next
  assume a: "fetch_failed ao \<and> fetchWeatherData wc wo = Inr (w, wx) \<and> wd_hourly w \<noteq> []
        \<and> fetchAstronomicalData dc dout = Inr (ad, dx)"
  then have astro: "fetchAstroData None ao = (getDefaultAstroData, None)"
    by (simp add: fetchAstroData_failed)
  from a have "wd_hourly w \<noteq> []" by simp
  from processWeatherData_default_astro [OF this, of tz now st ad]
  obtain c st' where p: "processWeatherData tz now st w getDefaultAstroData ad = Inr st'"
    and c: "st_conditions st' = Some c" "seeing c = Num 3" "transparency c = Num 3"
      "seeingLabel c = Some ''Durchschnittlich''"
      "transparencyLabel c = Some ''Durchschnittlich''"
      "st_score st' = Some (calculateScore c (Some (photographyMode st)))"
      "st_error st' = st_error st"
    by blast
  from a astro p have "loadWeatherData tz now st (wc, wo) (None, ao) (dc, dout) = st'"
    by (simp add: loadWeatherData_def)
  with c show "\<exists>c. st_conditions (loadWeatherData tz now st (wc, wo) (None, ao) (dc, dout)) = Some c
           \<and> seeing c = Num 3 \<and> transparency c = Num 3
           \<and> seeingLabel c = Some ''Durchschnittlich''
           \<and> transparencyLabel c = Some ''Durchschnittlich''
           \<and> st_score (loadWeatherData tz now st (wc, wo) (None, ao) (dc, dout))
               = Some (calculateScore c (Some (photographyMode st)))
           \<and> st_error (loadWeatherData tz now st (wc, wo) (None, ao) (dc, dout))
               = st_error st"
    by simp
next
  assume "fetch_failed wo'"
  then obtain e where e: "fetchWeatherData None wo' = Inl e"
    using fetchWeatherData_failed by blast
  then have "loadWeatherData tz now st (None, wo') af df = st\<lparr> st_error := Some e \<rparr>"
    by (simp add: loadWeatherData_def)
  with e show "\<exists>e. fetchWeatherData None wo' = Inl e
           \<and> loadWeatherData tz now st (None, wo') af df = st\<lparr> st_error := Some e \<rparr>"
    by simp
qed

theorem seeing_failure_recovered_weather_failure_propagates_witness:
  "fetch_failed (Http_error 503 :: raw_astro option fetch_outcome)
   \<and> fetchWeatherData None (Http_ok (Some sample_weather))
       = Inr (sample_weather, Some sample_weather)
   \<and> wd_hourly sample_weather \<noteq> []
   \<and> fetchAstronomicalData None (Http_ok (Some sample_astronomical))
       = Inr (sample_astronomical, Some sample_astronomical)
   \<and> fetchAstroData None (Http_error 503) = (getDefaultAstroData, None)
   \<and> (\<exists>c. st_conditions (loadWeatherData 0 40000000 sample_state
               (None, Http_ok (Some sample_weather)) (None, Http_error 503)
               (None, Http_ok (Some sample_astronomical))) = Some c
         \<and> seeing c = Num 3 \<and> transparency c = Num 3
         \<and> seeingLabel c = Some ''Durchschnittlich''
         \<and> transparencyLabel c = Some ''Durchschnittlich''
         \<and> st_score (loadWeatherData 0 40000000 sample_state
               (None, Http_ok (Some sample_weather)) (None, Http_error 503)
               (None, Http_ok (Some sample_astronomical)))
             = Some (calculateScore c (Some (photographyMode sample_state)))
         \<and> st_error (loadWeatherData 0 40000000 sample_state
               (None, Http_ok (Some sample_weather)) (None, Http_error 503)
               (None, Http_ok (Some sample_astronomical)))
             = st_error sample_state)
   \<and> fetch_failed (Fetch_rejected :: weather_data option fetch_outcome)
   \<and> loadWeatherData 0 40000000 sample_state (None, Fetch_rejected)
        (None, Http_error 503) (None, Http_ok (Some sample_astronomical))
       = sample_state\<lparr> st_error := Some Network_error \<rparr>"
proof -
  have h1: "fetch_failed (Http_error 503 :: raw_astro option fetch_outcome)"
    by (simp add: fetch_failed_def)
  have h2: "fetchWeatherData None (Http_ok (Some sample_weather))
       = Inr (sample_weather, Some sample_weather)"
    by (simp add: fetchWeatherData_def)
  have h3: "wd_hourly sample_weather \<noteq> []"
    by (simp add: sample_weather_def)
  have h4: "fetchAstronomicalData None (Http_ok (Some sample_astronomical))
       = Inr (sample_astronomical, Some sample_astronomical)"
    by (simp add: fetchAstronomicalData_def)
  have h5: "fetch_failed (Fetch_rejected :: weather_data option fetch_outcome)"
    by (simp add: fetch_failed_def)
  have h6: "fetchWeatherData None Fetch_rejected = Inl Network_error"
    by (simp add: fetchWeatherData_def)
  note t = seeing_failure_recovered_weather_failure_propagates
    [where ao = "Http_error 503" and wc = None and wo = "Http_ok (Some sample_weather)"
       and w = sample_weather and wx = "Some sample_weather" and dc = None
       and dout = "Http_ok (Some sample_astronomical)" and ad = sample_astronomical
       and dx = "Some sample_astronomical" and tz = 0 and now = 40000000
       and st = sample_state and wo' = Fetch_rejected and af = "(None, Http_error 503)"
       and df = "(None, Http_ok (Some sample_astronomical))"]
  from t h1 h2 h3 h4 h5 h6 show ?thesis by simp
qed


section \<open>Properties of the temporal alignment\<close>

lemma closest_scan_first_min:
  assumes "seen = before @ c # after"
    and "\<forall>e\<in>set before. \<bar>a_timestamp c - t\<bar> < \<bar>a_timestamp e - t\<bar>"
    and "\<forall>e\<in>set after. \<bar>a_timestamp c - t\<bar> \<le> \<bar>a_timestamp e - t\<bar>"
  shows "\<exists>before' after'.
           seen @ es = before' @ fst (closest_scan t es (c, Some \<bar>a_timestamp c - t\<bar>)) # after'
         \<and> (\<forall>e\<in>set before'. \<bar>a_timestamp (fst (closest_scan t es (c, Some \<bar>a_timestamp c - t\<bar>))) - t\<bar>
                < \<bar>a_timestamp e - t\<bar>)
         \<and> (\<forall>e\<in>set after'. \<bar>a_timestamp (fst (closest_scan t es (c, Some \<bar>a_timestamp c - t\<bar>))) - t\<bar>
                \<le> \<bar>a_timestamp e - t\<bar>)"
  using assms
proof (induction es arbitrary: seen before c after)
  case Nil
  then show ?case by auto
next
  case (Cons e es)
  show ?case
  proof (cases "\<bar>a_timestamp e - t\<bar> < \<bar>a_timestamp c - t\<bar>")
    case True
    have s: "seen @ [e] = seen @ e # []" by simp
    have b: "\<forall>x\<in>set seen. \<bar>a_timestamp e - t\<bar> < \<bar>a_timestamp x - t\<bar>"
      using Cons.prems True by fastforce
    have "\<forall>x\<in>set []. \<bar>a_timestamp e - t\<bar> \<le> \<bar>a_timestamp x - t\<bar>" by simp
    from Cons.IH [OF s b this] True show ?thesis by (simp add: Let_def)
  next
    case False
    have s: "seen @ [e] = before @ c # (after @ [e])" using Cons.prems by simp
    have a: "\<forall>x\<in>set (after @ [e]). \<bar>a_timestamp c - t\<bar> \<le> \<bar>a_timestamp x - t\<bar>"
      using Cons.prems False by auto
    from Cons.IH [OF s Cons.prems(2) a] False show ?thesis by (simp add: Let_def)
  qed
qed

text \<open>
  C5: for an empty seeing series \<open>findMatchingAstroData\<close> returns none. For a series
  that is not empty it returns a record of the series whose distance in time to the
  target is minimal, and the first such record in the order of the series: every
  record before it is strictly farther from the target, every record after it is at
  least as far.
\<close>

theorem findMatchingAstroData_nearest_first:
  "(a_hourly astroData = [] \<longrightarrow> findMatchingAstroData astroData target = None)
   \<and> (a_hourly astroData \<noteq> [] \<longrightarrow>
        (\<exists>r before after.
            findMatchingAstroData astroData target = Some r
          \<and> a_hourly astroData = before @ r # after
          \<and> (\<forall>e\<in>set before. \<bar>a_timestamp r - target\<bar> < \<bar>a_timestamp e - target\<bar>)
          \<and> (\<forall>e\<in>set after. \<bar>a_timestamp r - target\<bar> \<le> \<bar>a_timestamp e - target\<bar>)))"
proof (cases "a_hourly astroData")
  case Nil
  then show ?thesis by (simp add: findMatchingAstroData_def)
next
  case (Cons first rest)
  have "\<exists>before' after'.
           [first] @ rest = before' @ fst (closest_scan target rest (first, Some \<bar>a_timestamp first - target\<bar>)) # after'
         \<and> (\<forall>e\<in>set before'. \<bar>a_timestamp (fst (closest_scan target rest (first, Some \<bar>a_timestamp first - target\<bar>))) - target\<bar>
                < \<bar>a_timestamp e - target\<bar>)
         \<and> (\<forall>e\<in>set after'. \<bar>a_timestamp (fst (closest_scan target rest (first, Some \<bar>a_timestamp first - target\<bar>))) - target\<bar>
                \<le> \<bar>a_timestamp e - target\<bar>)"
    by (rule closest_scan_first_min [where before = "[]" and after = "[]"]) simp_all
  with Cons show ?thesis by (simp add: findMatchingAstroData_def Let_def)
qed

theorem findMatchingAstroData_nearest_first_witness:
  "a_hourly sample_astro \<noteq> []
   \<and> findMatchingAstroData sample_astro 25 = Some (a_hourly sample_astro ! 1)
   \<and> (\<exists>r before after.
          findMatchingAstroData sample_astro 25 = Some r
        \<and> a_hourly sample_astro = before @ r # after)"
proof -
  have h: "a_hourly sample_astro \<noteq> []"
    by (simp add: sample_astro_def)
  have v: "findMatchingAstroData sample_astro 25 = Some (a_hourly sample_astro ! 1)"
    by (simp add: findMatchingAstroData_def sample_astro_def Let_def)
  from findMatchingAstroData_nearest_first [of sample_astro 25] h
  have "\<exists>r before after.
          findMatchingAstroData sample_astro 25 = Some r
        \<and> a_hourly sample_astro = before @ r # after"
    by blast
  with h v show ?thesis by (intro conjI)
qed


section \<open>Properties of the forecast\<close>

lemma keys_group_push:
  "map fst (group_push k h g) = (if k \<in> set (map fst g) then map fst g else map fst g @ [k])"
  by (induction g) force+

lemma map_of_group_push:
  "map_of (group_push k h g) =
     (map_of g)(k \<mapsto> (case map_of g k of None \<Rightarrow> [h] | Some hs \<Rightarrow> hs @ [h]))"
  by (induction g) (auto simp: fun_eq_iff)

lemma dailyGroups_snoc:
  "dailyGroups tz (xs @ [x]) = group_push (dateKey tz (h_timestamp x)) x (dailyGroups tz xs)"
  by (simp add: dailyGroups_def)

lemma dailyGroups_keys_set:
  "set (map fst (dailyGroups tz xs)) = (\<lambda>h. dateKey tz (h_timestamp h)) ` set xs"
proof (induction xs rule: rev_induct)
  case Nil
  then show ?case by (simp add: dailyGroups_def)
next
  case (snoc x xs)
  then show ?case by (auto simp: dailyGroups_snoc keys_group_push)
qed

lemma dailyGroups_keys_distinct: "distinct (map fst (dailyGroups tz xs))"
proof (induction xs rule: rev_induct)
  case Nil
  then show ?case by (simp add: dailyGroups_def)
next
  case (snoc x xs)
  then show ?case by (simp add: dailyGroups_snoc keys_group_push)
qed

lemma dailyGroups_map_of:
  "map_of (dailyGroups tz xs) k =
     (if k \<in> (\<lambda>h. dateKey tz (h_timestamp h)) ` set xs
      then Some (filter (\<lambda>h. dateKey tz (h_timestamp h) = k) xs) else None)"
proof (induction xs rule: rev_induct)
  case Nil
  then show ?case by (simp add: dailyGroups_def)
next
  case (snoc x xs)
  have none: "filter (\<lambda>h. dateKey tz (h_timestamp h) = k) xs = []"
    if "k \<notin> (\<lambda>h. dateKey tz (h_timestamp h)) ` set xs"
    using that by (auto simp: filter_empty_conv)
  show ?case
  proof (cases "k = dateKey tz (h_timestamp x)")
    case True
    with snoc none show ?thesis
      by (simp add: dailyGroups_snoc map_of_group_push)
  next
    case False
    then have "dateKey tz (h_timestamp x) \<noteq> k" by simp
    with False snoc show ?thesis
      by (simp add: dailyGroups_snoc map_of_group_push)
  qed
qed

lemma dailyGroups_bucket:
  assumes "(k, hs) \<in> set (dailyGroups tz xs)"
  shows "hs = filter (\<lambda>h. dateKey tz (h_timestamp h) = k) xs"
proof -
  from assms have "map_of (dailyGroups tz xs) k = Some hs"
    using dailyGroups_keys_distinct by (simp add: map_of_eq_Some_iff)
  then show ?thesis by (simp add: dailyGroups_map_of split: if_splits)
qed

lemma dateKey_mono: "s \<le> t \<Longrightarrow> dateKey tz s \<le> dateKey tz t"
  by (simp add: dateKey_def zdiv_mono1)

lemma dailyGroups_keys_increasing:
  "sorted (map h_timestamp xs) \<Longrightarrow> sorted_wrt (<) (map fst (dailyGroups tz xs))"
proof (induction xs rule: rev_induct)
  case Nil
  then show ?case by (simp add: dailyGroups_def)
next
  case (snoc x xs)
  from snoc.prems have sx: "sorted (map h_timestamp xs)"
    and le: "\<forall>y\<in>set xs. h_timestamp y \<le> h_timestamp x"
    by (auto simp: sorted_append)
  from snoc.IH [OF sx] have ih: "sorted_wrt (<) (map fst (dailyGroups tz xs))" .
  show ?case
  proof (cases "dateKey tz (h_timestamp x) \<in> set (map fst (dailyGroups tz xs))")
    case True
    with ih show ?thesis by (simp add: dailyGroups_snoc keys_group_push)
  next
    case False
    have "\<forall>k\<in>set (map fst (dailyGroups tz xs)). k < dateKey tz (h_timestamp x)"
    proof
      fix k assume k: "k \<in> set (map fst (dailyGroups tz xs))"
      then obtain y where y: "y \<in> set xs" "k = dateKey tz (h_timestamp y)"
        unfolding dailyGroups_keys_set by blast
      with le have "k \<le> dateKey tz (h_timestamp x)" by (simp add: dateKey_mono)
      moreover from k False have "k \<noteq> dateKey tz (h_timestamp x)" by blast
      ultimately show "k < dateKey tz (h_timestamp x)" by simp
    qed
    with ih False show ?thesis
      by (simp add: dailyGroups_snoc keys_group_push sorted_wrt_append)
  qed
qed

lemma buildDayForecast_date:
  "date (buildDayForecast tz mode a d i k hs) = k"
  by (simp add: buildDayForecast_def Let_def)

lemma buildForecastData_dates:
  "map date (buildForecastData tz mode w a d) = take 4 (map fst (dailyGroups tz (wd_hourly w)))"
proof -
  have "map date (buildForecastData tz mode w a d)
        = map (fst \<circ> snd) (enumerate 0 (take 4 (dailyGroups tz (wd_hourly w))))"
    by (simp add: buildForecastData_def buildDayForecast_date split_def comp_def)
  also have "\<dots> = map fst (map snd (enumerate 0 (take 4 (dailyGroups tz (wd_hourly w)))))"
    by (rule map_map [symmetric])
  also have "\<dots> = take 4 (map fst (dailyGroups tz (wd_hourly w)))"
    by (simp only: map_snd_enumerate take_map)
  finally show ?thesis .
qed

text \<open>
  C6: for an hourly weather series sorted ascending by timestamp, the forecast has at
  most 4 entries and their dates, the local calendar days, are strictly increasing.
\<close>

theorem buildForecastData_dates_increasing:
  assumes "sorted (map h_timestamp (wd_hourly w))"
  shows "length (buildForecastData tz mode w a d) \<le> 4
       \<and> sorted_wrt (<) (map date (buildForecastData tz mode w a d))"
proof
  show "length (buildForecastData tz mode w a d) \<le> 4"
    by (simp add: buildForecastData_def)
  show "sorted_wrt (<) (map date (buildForecastData tz mode w a d))"
    unfolding buildForecastData_dates
    using dailyGroups_keys_increasing [OF assms] by (rule sorted_wrt_take)
qed

theorem buildForecastData_dates_increasing_witness:
  "sorted (map h_timestamp (wd_hourly sample_weather))
   \<and> map date (buildForecastData 0 ''general'' sample_weather sample_astro
        sample_astronomical) = [0, 1]
   \<and> length (buildForecastData 0 ''general'' sample_weather sample_astro
        sample_astronomical) \<le> 4
   \<and> sorted_wrt (<) (map date (buildForecastData 0 ''general'' sample_weather sample_astro
        sample_astronomical))"
proof -
  have h: "sorted (map h_timestamp (wd_hourly sample_weather))"
    by (simp add: sample_weather_def sample_hour_def)
  have v: "map date (buildForecastData 0 ''general'' sample_weather sample_astro
        sample_astronomical) = [0, 1]"
    by (simp add: buildForecastData_dates dailyGroups_def sample_weather_def
        sample_hour_def dateKey_def)
  from buildForecastData_dates_increasing [OF h, of 0 "''general''" sample_astro
      sample_astronomical] h v
  show ?thesis by simp
qed

lemma buildDayForecast_no_night:
  assumes "\<forall>h\<in>set hs. \<not> isNightHour tz h"
  shows "buildDayForecast tz mode a d i k hs =
           \<lparr> date = k, d_overallScore = Num 50, d_scoreRating = ''good'',
             d_scoreUncertainty = Num 10, hourlyScores = [], bestHour = None \<rparr>"
proof -
  from assms have "filter (isNightHour tz) hs = []" by (simp add: filter_empty_conv)
  then show ?thesis by (simp add: buildDayForecast_def findBestHour_def)
qed

text \<open>
  C9: a day of the forecast whose bucket (the hours of the series on that local
  calendar day) holds no night hour has the overall score 50, the rating good, no
  hourly scores and no best hour.
\<close>

theorem buildForecastData_no_night_hours:
  assumes "day \<in> set (buildForecastData tz mode w a d)"
    and "\<forall>h\<in>set (wd_hourly w). dateKey tz (h_timestamp h) = date day \<longrightarrow> \<not> isNightHour tz h"
  shows "d_overallScore day = Num 50 \<and> d_scoreRating day = ''good''
       \<and> hourlyScores day = [] \<and> bestHour day = None"
proof -
  from assms(1) obtain i k hs where
    mem: "(i, k, hs) \<in> set (enumerate 0 (take 4 (dailyGroups tz (wd_hourly w))))"
    and day: "day = buildDayForecast tz mode a d i k hs"
    by (auto simp: buildForecastData_def)
  from mem have "snd (i, k, hs)
      \<in> set (map snd (enumerate 0 (take 4 (dailyGroups tz (wd_hourly w)))))"
    unfolding set_map by (rule imageI)
  then have "(k, hs) \<in> set (take 4 (dailyGroups tz (wd_hourly w)))"
    by (simp only: map_snd_enumerate snd_conv)
  then have "(k, hs) \<in> set (dailyGroups tz (wd_hourly w))" by (rule in_set_takeD)
  then have hs: "hs = filter (\<lambda>h. dateKey tz (h_timestamp h) = k) (wd_hourly w)"
    by (rule dailyGroups_bucket)
  from day have "date day = k" by (simp add: buildDayForecast_date)
  with assms(2) hs have "\<forall>h\<in>set hs. \<not> isNightHour tz h" by simp
  from buildDayForecast_no_night [OF this] day show ?thesis by simp
qed

theorem buildForecastData_no_night_hours_witness:
  "buildDayForecast 0 ''general'' sample_astro sample_astronomical 0 0
       [sample_hour 36000000, sample_hour 43200000]
     \<in> set (buildForecastData 0 ''general'' sample_weather sample_astro sample_astronomical)
   \<and> buildDayForecast 0 ''general'' sample_astro sample_astronomical 0 0
       [sample_hour 36000000, sample_hour 43200000]
     = \<lparr> date = 0, d_overallScore = Num 50, d_scoreRating = ''good'',
         d_scoreUncertainty = Num 10, hourlyScores = [], bestHour = None \<rparr>"
proof -
  let ?day = "buildDayForecast 0 ''general'' sample_astro sample_astronomical 0 0
       [sample_hour 36000000, sample_hour 43200000]"
  have m: "?day \<in> set (buildForecastData 0 ''general'' sample_weather sample_astro
      sample_astronomical)"
    by (simp add: buildForecastData_def dailyGroups_def sample_weather_def sample_hour_def
        dateKey_def)
  have d: "date ?day = 0" by (simp add: buildDayForecast_date)
  have n: "\<forall>h\<in>set (wd_hourly sample_weather).
         dateKey 0 (h_timestamp h) = 0 \<longrightarrow> \<not> isNightHour 0 h"
    by (simp add: sample_weather_def sample_hour_def dateKey_def isNightHour_def
        getHours_def)
  from n d have n': "\<forall>h\<in>set (wd_hourly sample_weather).
         dateKey 0 (h_timestamp h) = date ?day \<longrightarrow> \<not> isNightHour 0 h"
    by simp
  from buildForecastData_no_night_hours [OF m n']
  have "d_overallScore ?day = Num 50 \<and> d_scoreRating ?day = ''good''
       \<and> hourlyScores ?day = [] \<and> bestHour ?day = None" .
  moreover have "d_scoreUncertainty ?day = Num 10"
    by (simp add: buildDayForecast_def Let_def)
  ultimately have "?day = \<lparr> date = 0, d_overallScore = Num 50, d_scoreRating = ''good'',
         d_scoreUncertainty = Num 10, hourlyScores = [], bestHour = None \<rparr>"
    using d by (cases ?day) simp
  with m show ?thesis by (intro conjI)
qed


section \<open>Properties of the cache\<close>

lemma getItem_setItem: "getItem (setItem k v items) k = Some v"
  by (induction items) (auto simp: getItem_def)

lemma getItem_removeItem: "getItem (removeItem k items) k = None"
  by (induction items) (auto simp: getItem_def removeItem_def)

lemma cache_get_fresh:
  "t' < now + ttl \<Longrightarrow> fst (cache_get (cache_set c now ok key v ttl) t' key) = Some v"
  by (simp add: cache_get_def cache_set_def Let_def)

lemma cache_get_expired:
  assumes "now + ttl \<le> t'"
  shows "cache_get (cache_set c now True key v ttl) t' key =
           (None, c\<lparr> memoryCache := (memoryCache c)(generateKey key := None),
                     localStorage := removeItem (generateKey key)
                        (setItem (generateKey key)
                           (Json \<lparr> data = v, expiry = now + ttl, timestamp = now \<rparr>)
                           (localStorage c)) \<rparr>)"
  using assms
  by (simp add: cache_get_def cache_set_def read_storage_def Let_def getItem_setItem)

text \<open>
  C4, as stated, fails when the write to the durable tier fails: the durable tier
  then keeps what it held, and if that is an older entry under the same key which is
  still live and survives the eviction, a read after the new entry has expired does
  not return absent but the older value. Below, the entry set at time 10 with ttl 10
  has expired at time 50, and the read returns 7, the value stored before.
\<close>

theorem cache_get_after_failed_write_stale:
  "(10::int) + 10 \<le> 50
   \<and> fst (cache_get (cache_set stale_cache 10 False ''k'' 8 10) 50 ''k'') = Some 7"
  by (simp add: cache_get_def cache_set_def read_storage_def Let_def stale_cache_def
      cleanupStorage_def generateKey_def CACHE_PREFIX_def getItem_def removeItem_def
      entry_timestamp_def)

lemma read_storage_not_live:
  assumes "\<not> live_at t (getItem (localStorage c) k)"
  shows "fst (read_storage c t k) = None"
    and "memoryCache (snd (read_storage c t k)) = memoryCache c"
    and "\<not> live_at t (getItem (localStorage (snd (read_storage c t k))) k)"
  using assms
  by (auto simp: read_storage_def live_at_def getItem_removeItem
      split: option.splits stored.splits)

lemma cache_get_expired_general:
  assumes "now + ttl \<le> t'"
    and "\<not> live_at t' (getItem (localStorage (cache_set c now ok key v ttl)) (generateKey key))"
  shows "fst (cache_get (cache_set c now ok key v ttl) t' key) = None
       \<and> memoryCache (snd (cache_get (cache_set c now ok key v ttl) t' key))
            (generateKey key) = None
       \<and> \<not> live_at t' (getItem (localStorage (snd (cache_get (cache_set c now ok key v ttl) t' key)))
            (generateKey key))"
proof -
  define c1 where "c1 = cache_set c now ok key v ttl"
  define c2 where "c2 = c1\<lparr> memoryCache := (memoryCache c1)(generateKey key := None) \<rparr>"
  have m: "memoryCache c1 (generateKey key)
             = Some \<lparr> data = v, expiry = now + ttl, timestamp = now \<rparr>"
    by (simp add: c1_def cache_set_def Let_def)
  with assms(1) have g: "cache_get c1 t' key = read_storage c2 t' (generateKey key)"
    by (simp add: cache_get_def c2_def Let_def)
  from assms(2) have "\<not> live_at t' (getItem (localStorage c2) (generateKey key))"
    by (simp add: c2_def c1_def)
  from read_storage_not_live [OF this] show ?thesis
    unfolding c1_def [symmetric] g by (simp add: c2_def)
qed

lemma cache_set_ok_not_live:
  "now + ttl \<le> t' \<Longrightarrow>
     \<not> live_at t' (getItem (localStorage (cache_set c now True key v ttl)) (generateKey key))"
  by (simp add: cache_set_def Let_def getItem_setItem live_at_def)

text \<open>
  C4, amended: after \<open>set(key, value, ttl)\<close> at time \<open>now\<close>, a \<open>get(key)\<close> at a
  time before \<open>now + ttl\<close> returns the value, whether or not the durable write
  succeeded. A \<open>get(key)\<close> at a time from \<open>now + ttl\<close> on returns absent, drops
  the key from the fast tier and leaves no live entry under it in the durable tier,
  provided the durable write succeeded or the durable tier holds no live entry under
  the key; if the durable write succeeded, the key is then in neither tier.
\<close>

theorem cache_set_then_get:
  "(t' < now + ttl \<longrightarrow> fst (cache_get (cache_set c now ok key v ttl) t' key) = Some v)
   \<and> (now + ttl \<le> t'
        \<and> (ok \<or> \<not> live_at t'
              (getItem (localStorage (cache_set c now ok key v ttl)) (generateKey key))) \<longrightarrow>
        fst (cache_get (cache_set c now ok key v ttl) t' key) = None
      \<and> memoryCache (snd (cache_get (cache_set c now ok key v ttl) t' key))
           (generateKey key) = None
      \<and> \<not> live_at t'
           (getItem (localStorage (snd (cache_get (cache_set c now ok key v ttl) t' key)))
              (generateKey key)))
   \<and> (now + ttl \<le> t' \<and> ok \<longrightarrow>
        getItem (localStorage (snd (cache_get (cache_set c now ok key v ttl) t' key)))
          (generateKey key) = None)"
proof (intro conjI impI)
  assume "t' < now + ttl"
  then show "fst (cache_get (cache_set c now ok key v ttl) t' key) = Some v"
    by (rule cache_get_fresh)
next
  assume a: "now + ttl \<le> t'
        \<and> (ok \<or> \<not> live_at t'
              (getItem (localStorage (cache_set c now ok key v ttl)) (generateKey key)))"
  then have le: "now + ttl \<le> t'" by simp
  from a have nl: "\<not> live_at t'
      (getItem (localStorage (cache_set c now ok key v ttl)) (generateKey key))"
    using cache_set_ok_not_live [of now ttl t' c key v] by (cases ok) auto
  have r: "fst (cache_get (cache_set c now ok key v ttl) t' key) = None
       \<and> memoryCache (snd (cache_get (cache_set c now ok key v ttl) t' key))
            (generateKey key) = None
       \<and> \<not> live_at t' (getItem (localStorage (snd (cache_get (cache_set c now ok key v ttl) t' key)))
            (generateKey key))"
    using le nl by (rule cache_get_expired_general)
  from r show "fst (cache_get (cache_set c now ok key v ttl) t' key) = None" by simp
  from r show "memoryCache (snd (cache_get (cache_set c now ok key v ttl) t' key))
           (generateKey key) = None" by simp
  from r show "\<not> live_at t'
           (getItem (localStorage (snd (cache_get (cache_set c now ok key v ttl) t' key)))
              (generateKey key))" by simp
next
  assume "now + ttl \<le> t' \<and> ok"
  then show "getItem (localStorage (snd (cache_get (cache_set c now ok key v ttl) t' key)))
          (generateKey key) = None"
    by (simp add: cache_get_expired getItem_removeItem)
qed

theorem cache_set_then_get_witness:
  "(30::int) < 10 + 50
   \<and> fst (cache_get (cache_set stale_cache 10 False ''k'' 8 50) 30 ''k'') = Some 8
   \<and> (10::int) + 50 \<le> 70
   \<and> fst (cache_get (cache_set stale_cache 10 True ''k'' 8 50) 70 ''k'') = None
   \<and> memoryCache (snd (cache_get (cache_set stale_cache 10 True ''k'' 8 50) 70 ''k''))
        (generateKey ''k'') = None
   \<and> getItem (localStorage (snd (cache_get (cache_set stale_cache 10 True ''k'' 8 50) 70 ''k'')))
        (generateKey ''k'') = None
   \<and> (100::int) + 50 \<le> 200
   \<and> \<not> live_at 200
        (getItem (localStorage (cache_set full_cache 100 False ''x'' 5 50)) (generateKey ''x''))
   \<and> fst (cache_get (cache_set full_cache 100 False ''x'' 5 50) 200 ''x'') = None"
proof -
  have h: "\<not> live_at 200
        (getItem (localStorage (cache_set full_cache 100 False ''x'' 5 50)) (generateKey ''x''))"
    by (simp add: cache_set_def full_cache_def cleanupStorage_def Let_def generateKey_def
        CACHE_PREFIX_def getItem_def entry_timestamp_def removeItem_def live_at_def)
  from h
    cache_set_then_get [where t' = 30 and now = 10 and ttl = 50 and c = stale_cache
      and ok = False and key = "''k''" and v = 8]
    cache_set_then_get [where t' = 70 and now = 10 and ttl = 50 and c = stale_cache
      and ok = True and key = "''k''" and v = 8]
    cache_set_then_get [where t' = 200 and now = 100 and ttl = 50 and c = full_cache
      and ok = False and key = "''x''" and v = 5]
  show ?thesis by simp
qed

lemma foldl_removeItem:
  "foldl (\<lambda>remaining e. removeItem (fst e) remaining) items es
     = filter (\<lambda>(k, v). k \<notin> fst ` set es) items"
proof (induction es arbitrary: items)
  case Nil
  then show ?case by simp
next
  case (Cons e es)
  have "foldl (\<lambda>remaining e. removeItem (fst e) remaining) items (e # es)
          = foldl (\<lambda>remaining e. removeItem (fst e) remaining) (removeItem (fst e) items) es"
    by simp
  also have "\<dots> = filter (\<lambda>(k, v). k \<notin> fst ` set es) (removeItem (fst e) items)"
    by (rule Cons.IH)
  also have "\<dots> = filter (\<lambda>(k, v). k \<notin> fst ` set (e # es)) items"
    by (auto simp: removeItem_def split_def intro!: filter_cong)
  finally show ?case .
qed

lemma length_filter_keys:
  assumes "distinct (map fst xs)" and "R \<subseteq> fst ` set xs"
  shows "length (filter (\<lambda>(k, v). k \<notin> R) xs) + card R = length xs"
proof -
  have "map fst (filter (\<lambda>(k, v). k \<in> R) xs) = filter (\<lambda>k. k \<in> R) (map fst xs)"
    by (simp add: filter_map comp_def split_def)
  moreover have "distinct (filter (\<lambda>k. k \<in> R) (map fst xs))"
    using assms(1) by simp
  moreover have "set (filter (\<lambda>k. k \<in> R) (map fst xs)) = R"
    using assms(2) by auto
  ultimately have "card R = length (filter (\<lambda>(k, v). k \<in> R) xs)"
    by (metis distinct_card length_map)
  moreover have "length (filter (\<lambda>(k, v). k \<notin> R) xs) + length (filter (\<lambda>(k, v). k \<in> R) xs)
                   = length xs"
    using sum_length_filter_compl [of "\<lambda>(k, v). k \<in> R" xs]
    by (simp add: split_def add.commute)
  ultimately show ?thesis by simp
qed

lemma sorted_take_drop:
  assumes "sorted (map f xs)" and "x \<in> set (take m xs)" and "y \<in> set (drop m xs)"
  shows "f x \<le> f y"
proof -
  have "map f xs = map f (take m xs) @ map f (drop m xs)"
    by (metis append_take_drop_id map_append)
  with assms(1) have "\<forall>a\<in>set (map f (take m xs)). \<forall>b\<in>set (map f (drop m xs)). a \<le> b"
    by (simp add: sorted_append)
  with assms(2,3) show ?thesis by auto
qed

lemma cache_entries_keys:
  "filter (\<lambda>k. prefix CACHE_PREFIX k) (map fst items) = map fst (cache_entries items)"
  by (simp add: cache_entries_def filter_map comp_def split_def)

lemma cleanupStorage_evicts:
  assumes "distinct (map fst items)"
  shows "\<exists>R. cleanupStorage items = filter (\<lambda>(k, v). k \<notin> R) items
           \<and> R \<subseteq> fst ` set (cache_entries items)
           \<and> card R = (length (cache_entries items) + 1) div 2
           \<and> (\<forall>x\<in>set (cache_entries items). \<forall>y\<in>set (cache_entries items).
                 fst x \<in> R \<longrightarrow> fst y \<notin> R \<longrightarrow>
                 entry_timestamp (Some (snd x)) \<le> entry_timestamp (Some (snd y)))"
proof -
  define keys where "keys = map fst (cache_entries items)"
  define entries where "entries = map (\<lambda>k. (k, entry_timestamp (getItem items k))) keys"
  define S where "S = sort_key snd entries"
  define m where "m = (length entries + 1) div 2"
  define R where "R = fst ` set (take m S)"
  have n: "length entries = length (cache_entries items)"
    by (simp add: entries_def keys_def)
  have dk: "distinct keys"
    unfolding keys_def cache_entries_def using assms by (simp add: distinct_map_filter)
  have fst_entries: "map fst entries = keys"
    by (simp add: entries_def comp_def)
  have eq: "cleanupStorage items = filter (\<lambda>(k, v). k \<notin> R) items"
    unfolding cleanupStorage_def Let_def cache_entries_keys foldl_removeItem
        R_def S_def m_def entries_def keys_def ..
  have sub: "R \<subseteq> fst ` set (cache_entries items)"
  proof -
    have "set (take m S) \<subseteq> set entries" unfolding S_def by (metis set_sort set_take_subset)
    then have "R \<subseteq> fst ` set entries" unfolding R_def by blast
    also have "\<dots> = set keys" using fst_entries by (metis set_map)
    finally show ?thesis by (simp add: keys_def)
  qed
  have card: "card R = (length (cache_entries items) + 1) div 2"
  proof -
    have "distinct (map fst entries)" using dk fst_entries by simp
    then have "distinct entries \<and> inj_on fst (set entries)" by (simp add: distinct_map)
    then have "distinct (map fst S)"
      unfolding S_def by (simp add: distinct_map)
    then have "distinct (map fst (take m S))"
      by (metis distinct_take take_map)
    then have "card (set (map fst (take m S))) = length (take m S)"
      by (metis distinct_card length_map)
    moreover have "length (take m S) = m"
      by (simp add: S_def m_def)
    ultimately show ?thesis by (simp add: R_def m_def n)
  qed
  have ord: "\<forall>x\<in>set (cache_entries items). \<forall>y\<in>set (cache_entries items).
                 fst x \<in> R \<longrightarrow> fst y \<notin> R \<longrightarrow>
                 entry_timestamp (Some (snd x)) \<le> entry_timestamp (Some (snd y))"
  proof (intro ballI impI)
    fix x y
    assume x: "x \<in> set (cache_entries items)" and y: "y \<in> set (cache_entries items)"
      and xr: "fst x \<in> R" and yr: "fst y \<notin> R"
    have ts: "entry_timestamp (getItem items (fst z)) = entry_timestamp (Some (snd z))"
      if "z \<in> set (cache_entries items)" for z
    proof -
      from that have "(fst z, snd z) \<in> set items" by (simp add: cache_entries_def)
      with assms have "map_of items (fst z) = Some (snd z)" by (rule map_of_is_SomeI)
      then show ?thesis by (simp add: getItem_def)
    qed
    have ent: "snd e = entry_timestamp (getItem items (fst e))" if "e \<in> set entries" for e
      using that by (auto simp: entries_def)
    from xr obtain ex where ex: "ex \<in> set (take m S)" "fst ex = fst x"
      unfolding R_def by auto
    then have "ex \<in> set entries" unfolding S_def by (metis in_set_takeD set_sort)
    from ent [OF this] ex(2) have exv: "snd ex = entry_timestamp (getItem items (fst x))"
      by simp
    from y have "fst y \<in> set keys" by (simp add: keys_def)
    then have "(fst y, entry_timestamp (getItem items (fst y))) \<in> set entries"
      by (simp add: entries_def)
    then have "(fst y, entry_timestamp (getItem items (fst y))) \<in> set S"
      by (simp add: S_def)
    then have "(fst y, entry_timestamp (getItem items (fst y))) \<in> set (take m S) \<union> set (drop m S)"
      by (metis append_take_drop_id set_append)
    moreover have "(fst y, entry_timestamp (getItem items (fst y))) \<notin> set (take m S)"
    proof
      assume "(fst y, entry_timestamp (getItem items (fst y))) \<in> set (take m S)"
      then have "fst (fst y, entry_timestamp (getItem items (fst y))) \<in> R"
        unfolding R_def by (rule imageI)
      with yr show False by simp
    qed
    ultimately have "(fst y, entry_timestamp (getItem items (fst y))) \<in> set (drop m S)"
      by simp
    moreover have "sorted (map snd S)" unfolding S_def by (rule sorted_sort_key)
    ultimately have "snd ex \<le> snd (fst y, entry_timestamp (getItem items (fst y)))"
      using ex(1) sorted_take_drop [of snd S ex m] by blast
    with exv show "entry_timestamp (Some (snd x)) \<le> entry_timestamp (Some (snd y))"
      by (simp add: ts [OF x] ts [OF y])
  qed
  from eq sub card ord show ?thesis by (intro exI [of _ R] conjI)
qed


lemma cache_entries_filter:
  "cache_entries (filter P items) = filter P (cache_entries items)"
  by (auto simp: cache_entries_def intro!: filter_cong)

lemma cache_entries_mem:
  "e \<in> set (cache_entries items) \<longleftrightarrow> e \<in> set items \<and> prefix CACHE_PREFIX (fst e)"
  by (auto simp: cache_entries_def)

text \<open>
  C8: when the durable write of \<open>set\<close> fails, \<open>set\<close> still returns, and afterwards
  the new entry is read from the fast tier until it expires; nothing is written to the
  durable tier, which keeps its order and loses exactly \<open>(n + 1) div 2\<close> entries (the
  ceiling of \<open>n / 2\<close>), \<open>n\<close> being the number of its cache entries; entries under
  other keys stay, and every evicted entry is at most as recent by its timestamp as
  every cache entry that stays. The keys of the durable tier are distinct, as those of
  a key-value store are.
\<close>

theorem cache_set_storage_full:
  assumes "distinct (map fst (localStorage c))"
  shows "let c' = cache_set c now False key v ttl;
             n = length (cache_entries (localStorage c))
         in (\<forall>t'. t' < now + ttl \<longrightarrow> fst (cache_get c' t' key) = Some v)
          \<and> subseq (localStorage c') (localStorage c)
          \<and> length (localStorage c') + (n + 1) div 2 = length (localStorage c)
          \<and> length (cache_entries (localStorage c')) + (n + 1) div 2 = n
          \<and> (\<forall>e\<in>set (localStorage c).
                e \<notin> set (cache_entries (localStorage c)) \<longrightarrow> e \<in> set (localStorage c'))
          \<and> (\<forall>x\<in>set (localStorage c). \<forall>y\<in>set (cache_entries (localStorage c')).
                x \<notin> set (localStorage c') \<longrightarrow>
                entry_timestamp (Some (snd x)) \<le> entry_timestamp (Some (snd y)))"
proof -
  define items where "items = localStorage c"
  define c' where "c' = cache_set c now False key v ttl"
  define n where "n = length (cache_entries items)"
  have ls: "localStorage c' = cleanupStorage items"
    by (simp add: c'_def items_def cache_set_def Let_def)
  from assms have d: "distinct (map fst items)" by (simp add: items_def)
  from cleanupStorage_evicts [OF d] obtain R where
    eq: "cleanupStorage items = filter (\<lambda>(k, v). k \<notin> R) items"
    and sub: "R \<subseteq> fst ` set (cache_entries items)"
    and card: "card R = (n + 1) div 2"
    and ord: "\<forall>x\<in>set (cache_entries items). \<forall>y\<in>set (cache_entries items).
                 fst x \<in> R \<longrightarrow> fst y \<notin> R \<longrightarrow>
                 entry_timestamp (Some (snd x)) \<le> entry_timestamp (Some (snd y))"
    unfolding n_def by blast
  have pre: "prefix CACHE_PREFIX k" if "k \<in> R" for k
    using that sub by (auto simp: cache_entries_mem)
  have fresh: "\<forall>t'. t' < now + ttl \<longrightarrow> fst (cache_get c' t' key) = Some v"
    by (simp add: c'_def cache_get_fresh)
  have seq: "subseq (localStorage c') items"
    by (simp add: ls eq)
  have len: "length (localStorage c') + (n + 1) div 2 = length items"
  proof -
    have "set (cache_entries items) \<subseteq> set items" by (simp add: cache_entries_def)
    with sub have "R \<subseteq> fst ` set items" by blast
    from length_filter_keys [OF d this] show ?thesis by (simp add: ls eq card)
  qed
  have len_cache: "length (cache_entries (localStorage c')) + (n + 1) div 2 = n"
  proof -
    have "distinct (map fst (cache_entries items))"
      unfolding cache_entries_def using d by (simp add: distinct_map_filter)
    from length_filter_keys [OF this sub] show ?thesis
      by (simp add: ls eq card cache_entries_filter n_def)
  qed
  have others: "\<forall>e\<in>set items. e \<notin> set (cache_entries items) \<longrightarrow> e \<in> set (localStorage c')"
  proof (intro ballI impI)
    fix e assume e: "e \<in> set items" "e \<notin> set (cache_entries items)"
    then have "\<not> prefix CACHE_PREFIX (fst e)" by (simp add: cache_entries_mem)
    with pre have "fst e \<notin> R" by blast
    with e(1) show "e \<in> set (localStorage c')" by (simp add: ls eq split_def)
  qed
  have oldest: "\<forall>x\<in>set items. \<forall>y\<in>set (cache_entries (localStorage c')).
                x \<notin> set (localStorage c') \<longrightarrow>
                entry_timestamp (Some (snd x)) \<le> entry_timestamp (Some (snd y))"
  proof (intro ballI impI)
    fix x y
    assume x: "x \<in> set items" and y: "y \<in> set (cache_entries (localStorage c'))"
      and gone: "x \<notin> set (localStorage c')"
    from x gone have xr: "fst x \<in> R" by (simp add: ls eq split_def)
    with x pre have xc: "x \<in> set (cache_entries items)" by (simp add: cache_entries_mem)
    from y have yc: "y \<in> set (cache_entries items)" and yr: "fst y \<notin> R"
      by (simp_all add: ls eq cache_entries_filter split_def)
    from ord xc yc xr yr
    show "entry_timestamp (Some (snd x)) \<le> entry_timestamp (Some (snd y))" by blast
  qed
  from fresh seq len len_cache others oldest show ?thesis
    unfolding Let_def c'_def [symmetric] items_def [symmetric] n_def [symmetric]
    by (intro conjI)
qed

theorem cache_set_storage_full_witness:
  "distinct (map fst (localStorage full_cache))
   \<and> localStorage (cache_set full_cache 100 False ''x'' 5 50) =
       [(generateKey ''new'', Json \<lparr> data = 1, expiry = 900, timestamp = 30 \<rparr>),
        (''skyready_settings'', Unparsable)]
   \<and> fst (cache_get (cache_set full_cache 100 False ''x'' 5 50) 120 ''x'') = Some 5
   \<and> subseq (localStorage (cache_set full_cache 100 False ''x'' 5 50))
        (localStorage full_cache)
   \<and> length (localStorage (cache_set full_cache 100 False ''x'' 5 50))
        + (length (cache_entries (localStorage full_cache)) + 1) div 2
       = length (localStorage full_cache)
   \<and> length (cache_entries (localStorage (cache_set full_cache 100 False ''x'' 5 50)))
        + (length (cache_entries (localStorage full_cache)) + 1) div 2
       = length (cache_entries (localStorage full_cache))"
proof -
  have d: "distinct (map fst (localStorage full_cache))"
    by (simp add: full_cache_def generateKey_def CACHE_PREFIX_def)
  have v: "localStorage (cache_set full_cache 100 False ''x'' 5 50) =
       [(generateKey ''new'', Json \<lparr> data = 1, expiry = 900, timestamp = 30 \<rparr>),
        (''skyready_settings'', Unparsable)]"
    by (simp add: cache_set_def full_cache_def cleanupStorage_def Let_def generateKey_def
        CACHE_PREFIX_def getItem_def entry_timestamp_def removeItem_def)
  note t = cache_set_storage_full [OF d, of 100 "''x''" 5 50, unfolded Let_def]
  from t have "\<forall>t'. t' < 100 + 50 \<longrightarrow>
      fst (cache_get (cache_set full_cache 100 False ''x'' 5 50) t' ''x'') = Some 5"
    by (rule conjunct1)
  then have g: "fst (cache_get (cache_set full_cache 100 False ''x'' 5 50) 120 ''x'') = Some 5"
    by simp
  from t have r: "subseq (localStorage (cache_set full_cache 100 False ''x'' 5 50))
        (localStorage full_cache)
   \<and> length (localStorage (cache_set full_cache 100 False ''x'' 5 50))
        + (length (cache_entries (localStorage full_cache)) + 1) div 2
       = length (localStorage full_cache)
   \<and> length (cache_entries (localStorage (cache_set full_cache 100 False ''x'' 5 50)))
        + (length (cache_entries (localStorage full_cache)) + 1) div 2
       = length (cache_entries (localStorage full_cache))"
    by blast
  from d v g r show ?thesis by (intro conjI) blast+
qed

end
